theory Spec2Isabelle
  imports Complex_Main
begin

section \<open>Data model\<close>

text \<open>
  The evaluator manager of the prediction module
  (\<^verbatim>\<open>modules/prediction/evaluator/evaluator_manager.cc\<close>). The protobuf messages, the
  obstacle class, the containers and the command-line flags are declared in files that are
  not part of the sources at hand; each is modelled by exactly the accessors the manager
  calls on it.
\<close>

text \<open>\<^verbatim>\<open>ObstaclePriority::Priority\<close>: the three values the manager compares against.\<close>

datatype ObstaclePriority = CAUTION | NORMAL | IGNORE

text \<open>
  \<^verbatim>\<open>PerceptionObstacle::Type\<close>. The manager names four values and has a \<^verbatim>\<open>default\<close>
  branch in each of its switches; \<open>OTHER_TYPE\<close> stands for every value it does not name.
\<close>

datatype ObstacleType = UNKNOWN | PEDESTRIAN | BICYCLE | VEHICLE | OTHER_TYPE

text \<open>
  \<^verbatim>\<open>ObstacleConf::EvaluatorType\<close>: the nine values the manager registers, and
  \<open>OTHER_EVALUATOR\<close> for any further value of the enum, which \<^verbatim>\<open>CreateEvaluator\<close>
  sends to its \<^verbatim>\<open>default\<close> branch.
\<close>

datatype EvaluatorType =
    MLP_EVALUATOR
  | RNN_EVALUATOR
  | COST_EVALUATOR
  | CRUISE_MLP_EVALUATOR
  | JUNCTION_MLP_EVALUATOR
  | CYCLIST_KEEP_LANE_EVALUATOR
  | LANE_SCANNING_EVALUATOR
  | PEDESTRIAN_INTERACTION_EVALUATOR
  | JUNCTION_MAP_EVALUATOR
  | OTHER_EVALUATOR nat

datatype ObstacleStatus = ON_LANE | OFF_LANE | IN_JUNCTION

text \<open>
  Modelled from the spec: the operating modes of \<^verbatim>\<open>FLAGS_prediction_offline_mode\<close>
  (\<^verbatim>\<open>PredictionConstants\<close> is not among the sources). The manager compares the flag
  against \<open>kDumpDataForLearning\<close> (data collection) and \<open>kDumpFrameEnv\<close> (frame dump only);
  \<open>kOnline\<close> is every other mode.
\<close>

datatype OfflineMode = kOnline | kDumpDataForLearning | kDumpFrameEnv

text \<open>
  Floating-point fields are only copied by the manager, never computed with, so their
  carrier is immaterial; \<open>real\<close> is used.
\<close>

record Point3D =
  x :: real
  y :: real
  z :: real

text \<open>The fields of the \<^verbatim>\<open>Feature\<close> message that the manager reads or writes.\<close>

record Feature =
  feature_id :: int
  timestamp :: real
  position :: Point3D
  velocity_heading :: real
  theta :: real
  polygon_point :: "Point3D list"
  feature_length :: real
  feature_width :: real
  priority :: ObstaclePriority
  is_still :: bool
  feature_type :: ObstacleType

text \<open>
  The \<^verbatim>\<open>Obstacle\<close> class, by the member functions the manager calls:
  \<^verbatim>\<open>type()\<close>, \<^verbatim>\<open>IsStill()\<close>, \<^verbatim>\<open>IsOnLane()\<close>, \<^verbatim>\<open>HasJunctionFeatureWithExits()\<close>,
  \<^verbatim>\<open>IsCloseToJunctionExit()\<close>, \<^verbatim>\<open>latest_feature()\<close>, and the stored history read through
  \<^verbatim>\<open>history_size()\<close> and \<^verbatim>\<open>feature(i)\<close>. How the class relates them to one another is
  not visible here, so each is a field of its own. The manager reads \<^verbatim>\<open>feature(i)\<close> only
  for \<open>i\<close> below \<^verbatim>\<open>history_size()\<close>.
\<close>

record Obstacle =
  obstacle_type :: ObstacleType
  IsStill :: bool
  IsOnLane :: bool
  HasJunctionFeatureWithExits :: bool
  IsCloseToJunctionExit :: bool
  latest_feature :: Feature
  feature_history :: "Feature list"

definition history_size :: "Obstacle \<Rightarrow> nat" where
  "history_size obstacle = length (feature_history obstacle)"

definition feature :: "Obstacle \<Rightarrow> nat \<Rightarrow> Feature" where
  "feature obstacle i = feature_history obstacle ! i"

text \<open>
  An \<^verbatim>\<open>Obstacle*\<close> handed out by the container is the address of the obstacle stored
  under an id; the model uses that id as the address and the container as the store.
\<close>

type_synonym obstacle_ptr = int

record ObstaclesContainer =
  obstacles :: "int \<rightharpoonup> Obstacle"
  curr_frame_considered_obstacle_ids :: "int list"
  curr_frame_movable_obstacle_ids :: "int list"
  container_timestamp :: real

definition GetObstacle :: "ObstaclesContainer \<Rightarrow> int \<Rightarrow> Obstacle option" where
  "GetObstacle container obstacle_id = obstacles container obstacle_id"

text \<open>The command-line flags the manager reads (32-bit integers and booleans).\<close>

record Flags =
  ego_vehicle_id :: int
  max_thread_num :: int
  max_caution_thread_num :: int
  prediction_offline_mode :: OfflineMode
  enable_semantic_map :: bool
  enable_multi_thread :: bool

text \<open>
  What ends the process: a failed \<^verbatim>\<open>CHECK_NOTNULL\<close>, and an integer remainder by zero
  (undefined behaviour in C++, a trap on the usual targets).
\<close>

datatype error = CheckNotNullFailed | DivisionByZero

section \<open>Partitioning by obstacle id\<close>

text \<open>
  The \<^verbatim>\<open>%\<close> of C++ on \<^verbatim>\<open>int\<close>: the quotient is truncated towards zero, so the result
  has the sign of the dividend. The divisor is not zero where this is used. Ids and flags
  are 32-bit in the source and unbounded here: the two agree as long as no value leaves the
  32-bit range, which is so at every input evaluated below and wherever
  \<open>0 < max_caution_thread_num < max_thread_num\<close>.
\<close>

definition c_rem :: "int \<Rightarrow> int \<Rightarrow> int" where
  "c_rem a b = sgn a * (\<bar>a\<bar> mod \<bar>b\<bar>)"

text \<open>
  \<^verbatim>\<open>IdObstacleListMap = std::unordered_map<int, std::list<Obstacle*>>\<close> as an association
  list with one entry per key. \<open>push_back_at m k p\<close> is \<^verbatim>\<open>m[k].push_back(p)\<close>: the entry
  is created empty when the key is new. The iteration order of the C++ map is unspecified;
  the model lists the keys in the order they were created.
\<close>

type_synonym IdObstacleListMap = "(int \<times> obstacle_ptr list) list"

fun push_back_at :: "IdObstacleListMap \<Rightarrow> int \<Rightarrow> obstacle_ptr \<Rightarrow> IdObstacleListMap" where
  "push_back_at [] k p = [(k, [p])]"
| "push_back_at ((k', ps) # m) k p =
     (if k' = k then (k', ps @ [p]) # m else (k', ps) # push_back_at m k p)"

text \<open>The list stored under a key, empty when the key is absent.\<close>

definition bucket :: "IdObstacleListMap \<Rightarrow> int \<Rightarrow> obstacle_ptr list" where
  "bucket m k = (case map_of m k of None \<Rightarrow> [] | Some ps \<Rightarrow> ps)"

definition GroupObstaclesByObstacleId ::
  "Flags \<Rightarrow> int \<Rightarrow> ObstaclesContainer \<Rightarrow> IdObstacleListMap \<Rightarrow> error + IdObstacleListMap" where
  "GroupObstaclesByObstacleId flags obstacle_id obstacles_container id_obstacle_map =
     (case GetObstacle obstacles_container obstacle_id of
        None \<Rightarrow> Inr id_obstacle_map
      | Some obstacle \<Rightarrow>
          if IsStill obstacle then Inr id_obstacle_map
          else if priority (latest_feature obstacle) = IGNORE then Inr id_obstacle_map
          else if priority (latest_feature obstacle) = CAUTION then
            (if max_caution_thread_num flags = 0 then Inl DivisionByZero
             else
               let id_mod = c_rem obstacle_id (max_caution_thread_num flags)
               in Inr (push_back_at id_obstacle_map id_mod obstacle_id))
          else
            (let normal_thread_num = max_thread_num flags - max_caution_thread_num flags
             in if normal_thread_num = 0 then Inl DivisionByZero
                else
                  let id_mod = c_rem obstacle_id normal_thread_num
                                 + max_caution_thread_num flags
                  in Inr (push_back_at id_obstacle_map id_mod obstacle_id)))"

text \<open>
  The grouping loop of \<^verbatim>\<open>Run\<close> in multi-thread mode:
  \<^verbatim>\<open>for (int id : ids) GroupObstaclesByObstacleId(id, container, &id_obstacle_map)\<close>.
\<close>

fun GroupObstacles ::
  "Flags \<Rightarrow> int list \<Rightarrow> ObstaclesContainer \<Rightarrow> IdObstacleListMap \<Rightarrow> error + IdObstacleListMap" where
  "GroupObstacles flags [] obstacles_container id_obstacle_map = Inr id_obstacle_map"
| "GroupObstacles flags (obstacle_id # ids) obstacles_container id_obstacle_map =
     (case GroupObstaclesByObstacleId flags obstacle_id obstacles_container id_obstacle_map of
        Inl e \<Rightarrow> Inl e
      | Inr m \<Rightarrow> GroupObstacles flags ids obstacles_container m)"

section \<open>Strategies and their registry\<close>

text \<open>
  The plugin contract of \<^verbatim>\<open>Evaluator\<close>: \<^verbatim>\<open>GetName()\<close>, \<^verbatim>\<open>Evaluate(obstacle)\<close> and
  \<^verbatim>\<open>Evaluate(obstacle, dynamic_env)\<close>. A strategy writes into the obstacle it is given
  and reports whether it produced a result, so a call returns the flag and the obstacle
  as it leaves it.
\<close>

record Evaluator =
  GetName :: string
  Evaluate :: "Obstacle \<Rightarrow> bool \<times> Obstacle"
  Evaluate_env :: "Obstacle \<Rightarrow> obstacle_ptr list \<Rightarrow> bool \<times> Obstacle"

text \<open>The nine strategy classes \<^verbatim>\<open>CreateEvaluator\<close> instantiates; their code is elsewhere.\<close>

record EvaluatorClasses =
  MLPEvaluator :: Evaluator
  CruiseMLPEvaluator :: Evaluator
  JunctionMLPEvaluator :: Evaluator
  RNNEvaluator :: Evaluator
  CostEvaluator :: Evaluator
  CyclistKeepLaneEvaluator :: Evaluator
  LaneScanningEvaluator :: Evaluator
  PedestrianInteractionEvaluator :: Evaluator
  JunctionMapEvaluator :: Evaluator

text \<open>\<^verbatim>\<open>ObstacleHistory\<close>: the frames kept for one obstacle and its trainable flag.\<close>

record ObstacleHistory =
  history_feature :: "Feature list"
  is_trainable :: bool

record EvaluatorManager =
  evaluators :: "EvaluatorType \<rightharpoonup> Evaluator option"
  vehicle_on_lane_evaluator :: EvaluatorType
  vehicle_in_junction_evaluator :: EvaluatorType
  cyclist_on_lane_evaluator :: EvaluatorType
  pedestrian_evaluator :: EvaluatorType
  default_on_lane_evaluator :: EvaluatorType
  obstacle_id_history_map :: "(int \<times> ObstacleHistory) list"

text \<open>
  \<^verbatim>\<open>CreateEvaluator\<close>: a fresh instance for each of the nine types, the null pointer
  for any other.
\<close>

fun CreateEvaluator :: "EvaluatorClasses \<Rightarrow> EvaluatorType \<Rightarrow> Evaluator option" where
  "CreateEvaluator classes MLP_EVALUATOR = Some (MLPEvaluator classes)"
| "CreateEvaluator classes CRUISE_MLP_EVALUATOR = Some (CruiseMLPEvaluator classes)"
| "CreateEvaluator classes JUNCTION_MLP_EVALUATOR = Some (JunctionMLPEvaluator classes)"
| "CreateEvaluator classes RNN_EVALUATOR = Some (RNNEvaluator classes)"
| "CreateEvaluator classes COST_EVALUATOR = Some (CostEvaluator classes)"
| "CreateEvaluator classes CYCLIST_KEEP_LANE_EVALUATOR = Some (CyclistKeepLaneEvaluator classes)"
| "CreateEvaluator classes LANE_SCANNING_EVALUATOR = Some (LaneScanningEvaluator classes)"
| "CreateEvaluator classes PEDESTRIAN_INTERACTION_EVALUATOR =
     Some (PedestrianInteractionEvaluator classes)"
| "CreateEvaluator classes JUNCTION_MAP_EVALUATOR = Some (JunctionMapEvaluator classes)"
| "CreateEvaluator classes (OTHER_EVALUATOR n) = None"

definition RegisterEvaluator ::
  "EvaluatorClasses \<Rightarrow> EvaluatorType \<Rightarrow> EvaluatorManager \<Rightarrow> EvaluatorManager" where
  "RegisterEvaluator classes ty mgr =
     mgr\<lparr>evaluators := (evaluators mgr)(ty \<mapsto> CreateEvaluator classes ty)\<rparr>"

definition RegisterEvaluators :: "EvaluatorClasses \<Rightarrow> EvaluatorManager \<Rightarrow> EvaluatorManager" where
  "RegisterEvaluators classes mgr =
     fold (RegisterEvaluator classes)
       [MLP_EVALUATOR, RNN_EVALUATOR, COST_EVALUATOR, CRUISE_MLP_EVALUATOR,
        JUNCTION_MLP_EVALUATOR, CYCLIST_KEEP_LANE_EVALUATOR, LANE_SCANNING_EVALUATOR,
        PEDESTRIAN_INTERACTION_EVALUATOR, JUNCTION_MAP_EVALUATOR]
       mgr"

text \<open>
  The constructor. The routes start from the default member initialisers of the class
  declaration, which is not among the sources: \<open>members\<close> carries them. Both maps start
  empty.
\<close>

definition new_EvaluatorManager :: "EvaluatorClasses \<Rightarrow> EvaluatorManager \<Rightarrow> EvaluatorManager" where
  "new_EvaluatorManager classes members =
     RegisterEvaluators classes
       (members\<lparr>evaluators := Map.empty, obstacle_id_history_map := []\<rparr>)"

definition GetEvaluator :: "EvaluatorManager \<Rightarrow> EvaluatorType \<Rightarrow> Evaluator option" where
  "GetEvaluator mgr ty = (case evaluators mgr ty of None \<Rightarrow> None | Some p \<Rightarrow> p)"

section \<open>Resolution of the routes from the configuration\<close>

text \<open>
  One \<^verbatim>\<open>ObstacleConf\<close> entry; each optional field is \<open>None\<close> when its \<^verbatim>\<open>has_\<close> test
  fails.
\<close>

record ObstacleConf =
  conf_obstacle_type :: "ObstacleType option"
  conf_evaluator_type :: "EvaluatorType option"
  conf_obstacle_status :: "ObstacleStatus option"

text \<open>The body of the loop of \<^verbatim>\<open>Init\<close>, for one entry.\<close>

definition Init_entry :: "Flags \<Rightarrow> ObstacleConf \<Rightarrow> EvaluatorManager \<Rightarrow> EvaluatorManager" where
  "Init_entry flags obstacle_conf mgr =
     (case conf_obstacle_type obstacle_conf of
        None \<Rightarrow> mgr
      | Some ty \<Rightarrow>
     (case conf_evaluator_type obstacle_conf of
        None \<Rightarrow> mgr
      | Some ev \<Rightarrow>
     (case conf_obstacle_status obstacle_conf of
        None \<Rightarrow> mgr
      | Some st \<Rightarrow>
     (case ty of
        VEHICLE \<Rightarrow>
          (let mgr1 =
             (if st = ON_LANE then
                (if prediction_offline_mode flags = kDumpDataForLearning
                 then mgr\<lparr>vehicle_on_lane_evaluator := LANE_SCANNING_EVALUATOR\<rparr>
                 else mgr\<lparr>vehicle_on_lane_evaluator := ev\<rparr>)
              else mgr)
           in if st = IN_JUNCTION then mgr1\<lparr>vehicle_in_junction_evaluator := ev\<rparr> else mgr1)
      | BICYCLE \<Rightarrow> (if st = ON_LANE then mgr\<lparr>cyclist_on_lane_evaluator := ev\<rparr> else mgr)
      | PEDESTRIAN \<Rightarrow> mgr\<lparr>pedestrian_evaluator := PEDESTRIAN_INTERACTION_EVALUATOR\<rparr>
      | UNKNOWN \<Rightarrow> (if st = ON_LANE then mgr\<lparr>default_on_lane_evaluator := ev\<rparr> else mgr)
      | OTHER_TYPE \<Rightarrow> mgr))))"

text \<open>
  \<^verbatim>\<open>Init\<close>: the entries in order. The start of the semantic map at its end belongs to
  another component and leaves the manager as it is.
\<close>

definition Init :: "Flags \<Rightarrow> ObstacleConf list \<Rightarrow> EvaluatorManager \<Rightarrow> EvaluatorManager" where
  "Init flags config mgr = fold (Init_entry flags) config mgr"

section \<open>Dispatch of one obstacle\<close>

text \<open>
  One strategy call: the type it was looked up under, whether the dynamic environment was
  passed, and the flag the strategy returned.
\<close>

datatype invocation = Invocation (strategy: EvaluatorType) (with_env: bool) (produced: bool)

text \<open>
  \<^verbatim>\<open>EvaluateObstacle(obstacle, dynamic_env)\<close>. The result is the failed check that ends
  the process, or the strategy calls made, in order, with the obstacle as they leave it.
  The commented-out \<^verbatim>\<open>PEDESTRIAN\<close> case of the switch is not there: that type, like every
  type other than the two named ones, takes the \<^verbatim>\<open>default\<close> branch.
\<close>

definition EvaluateObstacle ::
  "EvaluatorManager \<Rightarrow> Obstacle \<Rightarrow> obstacle_ptr list \<Rightarrow> error + invocation list \<times> Obstacle" where
  "EvaluateObstacle mgr obstacle dynamic_env =
     (if obstacle_type obstacle = VEHICLE then
        (if HasJunctionFeatureWithExits obstacle \<and> \<not> IsCloseToJunctionExit obstacle then
           (if priority (latest_feature obstacle) = CAUTION then
              (case GetEvaluator mgr JUNCTION_MAP_EVALUATOR of
                 None \<Rightarrow> Inl CheckNotNullFailed
               | Some evaluator \<Rightarrow>
                   (case Evaluate evaluator obstacle of
                      (True, obstacle1) \<Rightarrow>
                        Inr ([Invocation JUNCTION_MAP_EVALUATOR False True], obstacle1)
                    | (False, obstacle1) \<Rightarrow>
                        (case GetEvaluator mgr (vehicle_in_junction_evaluator mgr) of
                           None \<Rightarrow> Inl CheckNotNullFailed
                         | Some evaluator2 \<Rightarrow>
                             (case Evaluate evaluator2 obstacle1 of
                                (r, obstacle2) \<Rightarrow>
                                  Inr ([Invocation JUNCTION_MAP_EVALUATOR False False,
                                        Invocation (vehicle_in_junction_evaluator mgr) False r],
                                       obstacle2)))))
            else
              (case GetEvaluator mgr (vehicle_in_junction_evaluator mgr) of
                 None \<Rightarrow> Inl CheckNotNullFailed
               | Some evaluator \<Rightarrow>
                   (case Evaluate evaluator obstacle of
                      (r, obstacle1) \<Rightarrow>
                        Inr ([Invocation (vehicle_in_junction_evaluator mgr) False r],
                             obstacle1))))
         else if IsOnLane obstacle then
           (case GetEvaluator mgr (vehicle_on_lane_evaluator mgr) of
              None \<Rightarrow> Inl CheckNotNullFailed
            | Some evaluator \<Rightarrow>
                (if GetName evaluator = ''LANE_SCANNING_EVALUATOR'' then
                   (case Evaluate_env evaluator obstacle dynamic_env of
                      (r, obstacle1) \<Rightarrow>
                        Inr ([Invocation (vehicle_on_lane_evaluator mgr) True r], obstacle1))
                 else
                   (case Evaluate evaluator obstacle of
                      (r, obstacle1) \<Rightarrow>
                        Inr ([Invocation (vehicle_on_lane_evaluator mgr) False r], obstacle1))))
         else Inr ([], obstacle))
      else if obstacle_type obstacle = BICYCLE then
        (if IsOnLane obstacle then
           (case GetEvaluator mgr (cyclist_on_lane_evaluator mgr) of
              None \<Rightarrow> Inl CheckNotNullFailed
            | Some evaluator \<Rightarrow>
                (case Evaluate evaluator obstacle of
                   (r, obstacle1) \<Rightarrow>
                     Inr ([Invocation (cyclist_on_lane_evaluator mgr) False r], obstacle1)))
         else Inr ([], obstacle))
      else
        (if IsOnLane obstacle then
           (case GetEvaluator mgr (default_on_lane_evaluator mgr) of
              None \<Rightarrow> Inl CheckNotNullFailed
            | Some evaluator \<Rightarrow>
                (case Evaluate evaluator obstacle of
                   (r, obstacle1) \<Rightarrow>
                     Inr ([Invocation (default_on_lane_evaluator mgr) False r], obstacle1)))
         else Inr ([], obstacle)))"

section \<open>The history snapshot\<close>

text \<open>
  \<^verbatim>\<open>IsTrainable\<close>, with the two early returns of the source.
\<close>

definition IsTrainable :: "Flags \<Rightarrow> Feature \<Rightarrow> bool" where
  "IsTrainable flags f =
     (if feature_id f = ego_vehicle_id flags then False
      else if priority f = IGNORE \<or> is_still f \<or> feature_type f \<noteq> VEHICLE then False
      else True)"

text \<open>The extents of the ego vehicle, from the vehicle configuration.\<close>

record VehicleParam =
  vehicle_length :: real
  vehicle_width :: real

text \<open>
  The frame built in the inner loop from one stored feature. \<open>blank\<close> is the
  default-constructed \<^verbatim>\<open>Feature\<close> message the setters start from.
\<close>

definition history_frame :: "Flags \<Rightarrow> VehicleParam \<Rightarrow> Feature \<Rightarrow> Feature \<Rightarrow> Feature" where
  "history_frame flags vehicle_param blank obstacle_feature =
     (let f = blank\<lparr>feature_id := feature_id obstacle_feature,
                     timestamp := timestamp obstacle_feature,
                     position := position obstacle_feature,
                     theta := velocity_heading obstacle_feature\<rparr>
      in if feature_id obstacle_feature \<noteq> ego_vehicle_id flags then
           f\<lparr>polygon_point := polygon_point obstacle_feature,
             feature_length := feature_length obstacle_feature,
             feature_width := feature_width obstacle_feature\<rparr>
         else
           f\<lparr>feature_length := vehicle_length vehicle_param,
             feature_width := vehicle_width vehicle_param\<rparr>)"

text \<open>
  \<^verbatim>\<open>obstacle_id_history_map_\<close>, an \<^verbatim>\<open>std::unordered_map<int, ObstacleHistory>\<close>, as an
  association list with one entry per key, in the order the keys were created.
  \<open>update_history m k g\<close> is \<^verbatim>\<open>g(m[k])\<close>: the entry is created as the default message when
  the key is new.
\<close>

type_synonym IdHistoryMap = "(int \<times> ObstacleHistory) list"

definition empty_history :: ObstacleHistory where
  "empty_history = \<lparr>history_feature = [], is_trainable = False\<rparr>"

fun update_history ::
  "IdHistoryMap \<Rightarrow> int \<Rightarrow> (ObstacleHistory \<Rightarrow> ObstacleHistory) \<Rightarrow> IdHistoryMap" where
  "update_history [] k g = [(k, g empty_history)]"
| "update_history ((k', h) # m) k g =
     (if k' = k then (k', g h) # m else (k', h) # update_history m k g)"

definition add_feature :: "Feature \<Rightarrow> ObstacleHistory \<Rightarrow> ObstacleHistory" where
  "add_feature f h = h\<lparr>history_feature := history_feature h @ [f]\<rparr>"

definition set_is_trainable :: "bool \<Rightarrow> ObstacleHistory \<Rightarrow> ObstacleHistory" where
  "set_is_trainable b h = h\<lparr>is_trainable := b\<rparr>"

text \<open>The body of the loop over the ids, for one id.\<close>

definition build_history_of ::
  "Flags \<Rightarrow> VehicleParam \<Rightarrow> Feature \<Rightarrow> ObstaclesContainer \<Rightarrow> int \<Rightarrow> IdHistoryMap \<Rightarrow> IdHistoryMap" where
  "build_history_of flags vehicle_param blank obstacles_container obstacle_id m =
     (case GetObstacle obstacles_container obstacle_id of
        None \<Rightarrow> m
      | Some obstacle \<Rightarrow>
          if history_size obstacle = 0 then m
          else
            let num_frames = min 10 (history_size obstacle);
                m1 = fold (\<lambda>i m'. update_history m' obstacle_id
                             (add_feature
                                (history_frame flags vehicle_param blank (feature obstacle i))))
                       [0..<num_frames] m
            in update_history m1 obstacle_id
                 (set_is_trainable (IsTrainable flags (latest_feature obstacle))))"

text \<open>
  The two containers the manager asks the container manager for; either may be missing.
  The pose container is only checked for presence.
\<close>

record ContainerManager =
  perception_obstacles :: "ObstaclesContainer option"
  localization :: "unit option"

text \<open>
  \<^verbatim>\<open>BuildObstacleIdHistoryMap\<close>: the map is cleared, the ids are the movable ids of the
  frame followed by the ego id.
\<close>

definition BuildObstacleIdHistoryMap ::
  "Flags \<Rightarrow> VehicleParam \<Rightarrow> Feature \<Rightarrow> ContainerManager \<Rightarrow> EvaluatorManager
     \<Rightarrow> error + EvaluatorManager" where
  "BuildObstacleIdHistoryMap flags vehicle_param blank containers mgr =
     (case perception_obstacles containers of
        None \<Rightarrow> Inl CheckNotNullFailed
      | Some obstacles_container \<Rightarrow>
          (case localization containers of
             None \<Rightarrow> Inl CheckNotNullFailed
           | Some ego_pose_container \<Rightarrow>
               let obstacle_ids =
                     curr_frame_movable_obstacle_ids obstacles_container @ [ego_vehicle_id flags]
               in Inr (mgr\<lparr>obstacle_id_history_map :=
                         fold (build_history_of flags vehicle_param blank obstacles_container)
                           obstacle_ids []\<rparr>)))"

text \<open>\<^verbatim>\<open>FrameEnv\<close>: the histories of the frame, the ego vehicle's apart from the others.\<close>

record FrameEnv =
  env_timestamp :: real
  ego_history :: "ObstacleHistory option"
  obstacles_history :: "ObstacleHistory list"

text \<open>
  \<^verbatim>\<open>DumpCurrentFrameEnv\<close>, by the frame it hands to \<^verbatim>\<open>FeatureOutput::InsertFrameEnv\<close>.
  It runs after \<^verbatim>\<open>BuildObstacleIdHistoryMap\<close> has checked that the container is there.
\<close>

definition DumpCurrentFrameEnv :: "Flags \<Rightarrow> ObstaclesContainer \<Rightarrow> EvaluatorManager \<Rightarrow> FrameEnv" where
  "DumpCurrentFrameEnv flags obstacles_container mgr =
     fold (\<lambda>obstacle_id_history_pair curr_frame_env.
             if fst obstacle_id_history_pair \<noteq> ego_vehicle_id flags then
               curr_frame_env\<lparr>obstacles_history :=
                 obstacles_history curr_frame_env @ [snd obstacle_id_history_pair]\<rparr>
             else curr_frame_env\<lparr>ego_history := Some (snd obstacle_id_history_pair)\<rparr>)
       (obstacle_id_history_map mgr)
       \<lparr>env_timestamp = container_timestamp obstacles_container,
        ego_history = None, obstacles_history = []\<rparr>"

section \<open>One cycle\<close>

text \<open>
  The single-thread loop of \<^verbatim>\<open>Run\<close>. \<open>acc\<close> collects, in order, each call of
  \<^verbatim>\<open>EvaluateObstacle\<close> with the strategy calls it made; the store is updated with the
  obstacle as the strategies leave it.
\<close>

fun RunSingleThread ::
  "EvaluatorManager \<Rightarrow> obstacle_ptr list \<Rightarrow> int list \<Rightarrow> ObstaclesContainer
     \<Rightarrow> (obstacle_ptr \<times> invocation list) list
     \<Rightarrow> error + ObstaclesContainer \<times> (obstacle_ptr \<times> invocation list) list" where
  "RunSingleThread mgr dynamic_env [] obstacles_container acc = Inr (obstacles_container, acc)"
| "RunSingleThread mgr dynamic_env (obstacle_id # ids) obstacles_container acc =
     (if obstacle_id < 0 then RunSingleThread mgr dynamic_env ids obstacles_container acc
      else
        (case GetObstacle obstacles_container obstacle_id of
           None \<Rightarrow> RunSingleThread mgr dynamic_env ids obstacles_container acc
         | Some obstacle \<Rightarrow>
             if IsStill obstacle then
               RunSingleThread mgr dynamic_env ids obstacles_container acc
             else
               (case EvaluateObstacle mgr obstacle dynamic_env of
                  Inl e \<Rightarrow> Inl e
                | Inr (calls, obstacle1) \<Rightarrow>
                    RunSingleThread mgr dynamic_env ids
                      (obstacles_container\<lparr>obstacles :=
                         (obstacles obstacles_container)(obstacle_id \<mapsto> obstacle1)\<rparr>)
                      (acc @ [(obstacle_id, calls)]))))"

text \<open>
  The work of one worker: \<^verbatim>\<open>EvaluateObstacle\<close> on each pointer of its list, in order.
  A pointer is in a list only after the container returned it, so the store has it; the
  \<open>None\<close> branch is there for totality.
\<close>

fun EvaluateBucket ::
  "EvaluatorManager \<Rightarrow> obstacle_ptr list \<Rightarrow> obstacle_ptr list \<Rightarrow> ObstaclesContainer
     \<Rightarrow> (obstacle_ptr \<times> invocation list) list
     \<Rightarrow> error + ObstaclesContainer \<times> (obstacle_ptr \<times> invocation list) list" where
  "EvaluateBucket mgr dynamic_env [] obstacles_container acc = Inr (obstacles_container, acc)"
| "EvaluateBucket mgr dynamic_env (obstacle_ptr # ptrs) obstacles_container acc =
     (case GetObstacle obstacles_container obstacle_ptr of
        None \<Rightarrow> EvaluateBucket mgr dynamic_env ptrs obstacles_container acc
      | Some obstacle \<Rightarrow>
          (case EvaluateObstacle mgr obstacle dynamic_env of
             Inl e \<Rightarrow> Inl e
           | Inr (calls, obstacle1) \<Rightarrow>
               EvaluateBucket mgr dynamic_env ptrs
                 (obstacles_container\<lparr>obstacles :=
                    (obstacles obstacles_container)(obstacle_ptr \<mapsto> obstacle1)\<rparr>)
                 (acc @ [(obstacle_ptr, calls)])))"

text \<open>
  \<^verbatim>\<open>PredictionThreadPool::ForEach\<close> over the entries of the map. The pool runs the
  entries side by side; the model runs them one after the other, in the order of the
  association list. Which obstacles are dispatched, and with which calls, does not depend
  on that order as long as a strategy touches only the obstacle it is given.
\<close>

fun ForEach ::
  "EvaluatorManager \<Rightarrow> obstacle_ptr list \<Rightarrow> IdObstacleListMap \<Rightarrow> ObstaclesContainer
     \<Rightarrow> (obstacle_ptr \<times> invocation list) list
     \<Rightarrow> error + ObstaclesContainer \<times> (obstacle_ptr \<times> invocation list) list" where
  "ForEach mgr dynamic_env [] obstacles_container acc = Inr (obstacles_container, acc)"
| "ForEach mgr dynamic_env (obstacles_iter # rest) obstacles_container acc =
     (case EvaluateBucket mgr dynamic_env (snd obstacles_iter) obstacles_container acc of
        Inl e \<Rightarrow> Inl e
      | Inr (c, d) \<Rightarrow> ForEach mgr dynamic_env rest c d)"

text \<open>The second half of \<^verbatim>\<open>Run\<close>: the dispatch, with an empty dynamic environment.\<close>

definition RunDispatch ::
  "Flags \<Rightarrow> EvaluatorManager \<Rightarrow> ObstaclesContainer
     \<Rightarrow> error + ObstaclesContainer \<times> (obstacle_ptr \<times> invocation list) list" where
  "RunDispatch flags mgr obstacles_container =
     (let dynamic_env = [] in
      if enable_multi_thread flags then
        (case GroupObstacles flags (curr_frame_considered_obstacle_ids obstacles_container)
                obstacles_container [] of
           Inl e \<Rightarrow> Inl e
         | Inr id_obstacle_map \<Rightarrow>
             ForEach mgr dynamic_env id_obstacle_map obstacles_container [])
      else
        RunSingleThread mgr dynamic_env (curr_frame_considered_obstacle_ids obstacles_container)
          obstacles_container [])"

text \<open>What a cycle leaves behind.\<close>

record Cycle =
  manager :: EvaluatorManager
  container :: ObstaclesContainer
  frame_env :: "FrameEnv option"
  dispatched :: "(obstacle_ptr \<times> invocation list) list"

text \<open>
  \<^verbatim>\<open>Run\<close>. The update of the semantic map from the history map belongs to another
  component and is not modelled.
\<close>

definition Run ::
  "Flags \<Rightarrow> VehicleParam \<Rightarrow> Feature \<Rightarrow> ContainerManager \<Rightarrow> EvaluatorManager \<Rightarrow> error + Cycle" where
  "Run flags vehicle_param blank containers mgr =
     (case perception_obstacles containers of
        None \<Rightarrow> Inl CheckNotNullFailed
      | Some obstacles_container \<Rightarrow>
          if enable_semantic_map flags \<or> prediction_offline_mode flags = kDumpFrameEnv then
            (case BuildObstacleIdHistoryMap flags vehicle_param blank containers mgr of
               Inl e \<Rightarrow> Inl e
             | Inr mgr1 \<Rightarrow>
                 let env = DumpCurrentFrameEnv flags obstacles_container mgr1 in
                 if prediction_offline_mode flags = kDumpFrameEnv then
                   Inr \<lparr>manager = mgr1, container = obstacles_container,
                        frame_env = Some env, dispatched = []\<rparr>
                 else
                   (case RunDispatch flags mgr1 obstacles_container of
                      Inl e \<Rightarrow> Inl e
                    | Inr (c, d) \<Rightarrow>
                        Inr \<lparr>manager = mgr1, container = c,
                             frame_env = Some env, dispatched = d\<rparr>))
          else
            (case RunDispatch flags mgr obstacles_container of
               Inl e \<Rightarrow> Inl e
             | Inr (c, d) \<Rightarrow>
                 Inr \<lparr>manager = mgr, container = c, frame_env = None, dispatched = d\<rparr>))"

section \<open>Notions used in the statements\<close>

text \<open>
  The filter at the head of \<^verbatim>\<open>GroupObstaclesByObstacleId\<close>: the priority under which an
  id enters partitioning, \<open>None\<close> when the id is dropped (no obstacle, a still obstacle, or
  priority \<open>IGNORE\<close>).
\<close>

definition partition_class :: "ObstaclesContainer \<Rightarrow> int \<Rightarrow> ObstaclePriority option" where
  "partition_class obstacles_container obstacle_id =
     (case GetObstacle obstacles_container obstacle_id of
        None \<Rightarrow> None
      | Some obstacle \<Rightarrow>
          if IsStill obstacle then None
          else if priority (latest_feature obstacle) = IGNORE then None
          else Some (priority (latest_feature obstacle)))"

text \<open>
  The two \<^verbatim>\<open>id_mod\<close> expressions of \<^verbatim>\<open>GroupObstaclesByObstacleId\<close>, as a function of
  the id and the priority.
\<close>

definition assigned_bucket :: "Flags \<Rightarrow> int \<Rightarrow> ObstaclePriority \<Rightarrow> int" where
  "assigned_bucket flags obstacle_id p =
     (if p = CAUTION then c_rem obstacle_id (max_caution_thread_num flags)
      else c_rem obstacle_id (max_thread_num flags - max_caution_thread_num flags)
             + max_caution_thread_num flags)"

text \<open>
  The entries on which \<^verbatim>\<open>Init\<close> assigns the vehicle on-lane route: obstacle type
  \<open>VEHICLE\<close>, an evaluator type, and status \<open>ON_LANE\<close>.
\<close>

definition sets_vehicle_on_lane :: "ObstacleConf \<Rightarrow> bool" where
  "sets_vehicle_on_lane obstacle_conf \<longleftrightarrow>
     conf_obstacle_type obstacle_conf = Some VEHICLE \<and>
     conf_evaluator_type obstacle_conf \<noteq> None \<and>
     conf_obstacle_status obstacle_conf = Some ON_LANE"

text \<open>
  The test at the head of the loop of \<^verbatim>\<open>BuildObstacleIdHistoryMap\<close>: the obstacle under
  an id when it is there and has stored frames, \<open>None\<close> when the id is skipped.
\<close>

definition snapshot_obstacle :: "ObstaclesContainer \<Rightarrow> int \<Rightarrow> Obstacle option" where
  "snapshot_obstacle obstacles_container obstacle_id =
     (case GetObstacle obstacles_container obstacle_id of
        None \<Rightarrow> None
      | Some obstacle \<Rightarrow> if history_size obstacle = 0 then None else Some obstacle)"

text \<open>The frames one pass of the inner loop appends for an obstacle.\<close>

definition history_frames :: "Flags \<Rightarrow> VehicleParam \<Rightarrow> Feature \<Rightarrow> Obstacle \<Rightarrow> Feature list" where
  "history_frames flags vehicle_param blank obstacle =
     map (\<lambda>i. history_frame flags vehicle_param blank (feature obstacle i))
       [0..<min 10 (history_size obstacle)]"

text \<open>The ids the builder goes through: the movable ids, then the ego id.\<close>

definition snapshot_ids :: "Flags \<Rightarrow> ObstaclesContainer \<Rightarrow> int list" where
  "snapshot_ids flags obstacles_container =
     curr_frame_movable_obstacle_ids obstacles_container @ [ego_vehicle_id flags]"

text \<open>What \<^verbatim>\<open>m[k]\<close> refers to: the entry under the key, or a fresh default message.\<close>

definition entry_or_empty :: "IdHistoryMap \<Rightarrow> int \<Rightarrow> ObstacleHistory" where
  "entry_or_empty m k = (case map_of m k of None \<Rightarrow> empty_history | Some h \<Rightarrow> h)"

text \<open>
  The number of frames in the record the builder leaves under an id; \<open>None\<close> when the
  builder stopped the process or left no record.
\<close>

definition frames_kept :: "error + EvaluatorManager \<Rightarrow> int \<Rightarrow> nat option" where
  "frames_kept r k =
     (case r of
        Inl e \<Rightarrow> None
      | Inr mgr \<Rightarrow>
          map_option (\<lambda>h. length (history_feature h)) (map_of (obstacle_id_history_map mgr) k))"

text \<open>The calls of \<^verbatim>\<open>EvaluateObstacle\<close> a dispatch made, without the store it leaves.\<close>

definition dispatches ::
  "error + ObstaclesContainer \<times> (obstacle_ptr \<times> invocation list) list
     \<Rightarrow> error + (obstacle_ptr \<times> invocation list) list" where
  "dispatches r = (case r of Inl e \<Rightarrow> Inl e | Inr (c, d) \<Rightarrow> Inr d)"

section \<open>Example inputs\<close>

definition blank_feature :: Feature where
  "blank_feature =
     \<lparr>feature_id = 0, timestamp = 0, position = \<lparr>x = 0, y = 0, z = 0\<rparr>,
      velocity_heading = 0, theta = 0, polygon_point = [], feature_length = 0,
      feature_width = 0, priority = NORMAL, is_still = False, feature_type = UNKNOWN\<rparr>"

text \<open>
  A moving obstacle of the given id, type and priority, on a lane or not, with a junction
  ahead or not, and \<open>n\<close> stored frames.
\<close>

definition moving_obstacle ::
  "int \<Rightarrow> ObstacleType \<Rightarrow> ObstaclePriority \<Rightarrow> bool \<Rightarrow> bool \<Rightarrow> nat \<Rightarrow> Obstacle" where
  "moving_obstacle i ty p on_lane junction n =
     \<lparr>obstacle_type = ty, IsStill = False, IsOnLane = on_lane,
      HasJunctionFeatureWithExits = junction, IsCloseToJunctionExit = False,
      latest_feature = blank_feature\<lparr>feature_id := i, priority := p, feature_type := ty\<rparr>,
      feature_history =
        replicate n (blank_feature\<lparr>feature_id := i, priority := p, feature_type := ty\<rparr>)\<rparr>"

text \<open>One caution slot out of four, the ego vehicle under id \<open>-1\<close>.\<close>

definition scenario_flags :: Flags where
  "scenario_flags =
     \<lparr>ego_vehicle_id = -1, max_thread_num = 4, max_caution_thread_num = 1,
      prediction_offline_mode = kOnline, enable_semantic_map = False,
      enable_multi_thread = True\<rparr>"

text \<open>The same flags in data-collection mode.\<close>

definition learning_flags :: Flags where
  "learning_flags = scenario_flags\<lparr>prediction_offline_mode := kDumpDataForLearning\<rparr>"

text \<open>The same flags with the thread pool off.\<close>

definition single_thread_flags :: Flags where
  "single_thread_flags = scenario_flags\<lparr>enable_multi_thread := False\<rparr>"

text \<open>The two ends of \<open>0 \<le> Cc \<le> total\<close>: every slot a caution slot, and none.\<close>

definition all_caution_flags :: Flags where
  "all_caution_flags = scenario_flags\<lparr>max_caution_thread_num := 4\<rparr>"

definition no_caution_flags :: Flags where
  "no_caution_flags = scenario_flags\<lparr>max_caution_thread_num := 0\<rparr>"

text \<open>Two caution slots out of eight.\<close>

definition wide_flags :: Flags where
  "wide_flags = scenario_flags\<lparr>max_thread_num := 8, max_caution_thread_num := 2\<rparr>"

text \<open>
  A frame with a cautioned vehicle on its lane (1), a vehicle before a junction (2), a
  pedestrian on a lane (3), an ignored vehicle (4), and the ego vehicle (-1).
\<close>

definition scenario_container :: ObstaclesContainer where
  "scenario_container =
     \<lparr>obstacles = map_of
        [(1, moving_obstacle 1 VEHICLE CAUTION True False 3),
         (2, moving_obstacle 2 VEHICLE NORMAL False True 12),
         (3, moving_obstacle 3 PEDESTRIAN NORMAL True False 5),
         (4, moving_obstacle 4 VEHICLE IGNORE True False 2),
         (-1, moving_obstacle (-1) VEHICLE CAUTION True False 12)],
      curr_frame_considered_obstacle_ids = [1, 2, 3, 4],
      curr_frame_movable_obstacle_ids = [1, 2, 3, 4],
      container_timestamp = 0\<rparr>"

text \<open>A frame whose candidates have negative ids: a cautioned vehicle and a normal one.\<close>

definition negative_id_container :: ObstaclesContainer where
  "negative_id_container =
     \<lparr>obstacles = map_of
        [(-1, moving_obstacle (-1) VEHICLE CAUTION True False 12),
         (-7, moving_obstacle (-7) VEHICLE NORMAL True False 3)],
      curr_frame_considered_obstacle_ids = [-1, -7],
      curr_frame_movable_obstacle_ids = [-1, -7],
      container_timestamp = 0\<rparr>"

text \<open>A strategy that always produces a result, and one that never does.\<close>

definition producing :: "string \<Rightarrow> Evaluator" where
  "producing name =
     \<lparr>GetName = name, Evaluate = (\<lambda>obstacle. (True, obstacle)),
      Evaluate_env = (\<lambda>obstacle dynamic_env. (True, obstacle))\<rparr>"

definition declining :: "string \<Rightarrow> Evaluator" where
  "declining name =
     \<lparr>GetName = name, Evaluate = (\<lambda>obstacle. (False, obstacle)),
      Evaluate_env = (\<lambda>obstacle dynamic_env. (False, obstacle))\<rparr>"

text \<open>Nine strategies; the map-aware junction strategy declines, the others produce.\<close>

definition example_classes :: EvaluatorClasses where
  "example_classes =
     \<lparr>MLPEvaluator = producing ''MLP_EVALUATOR'',
      CruiseMLPEvaluator = producing ''CRUISE_MLP_EVALUATOR'',
      JunctionMLPEvaluator = producing ''JUNCTION_MLP_EVALUATOR'',
      RNNEvaluator = producing ''RNN_EVALUATOR'',
      CostEvaluator = producing ''COST_EVALUATOR'',
      CyclistKeepLaneEvaluator = producing ''CYCLIST_KEEP_LANE_EVALUATOR'',
      LaneScanningEvaluator = producing ''LANE_SCANNING_EVALUATOR'',
      PedestrianInteractionEvaluator = producing ''PEDESTRIAN_INTERACTION_EVALUATOR'',
      JunctionMapEvaluator = declining ''JUNCTION_MAP_EVALUATOR''\<rparr>"

text \<open>Routes a manager may start from, before any configuration is read.\<close>

definition example_members :: EvaluatorManager where
  "example_members =
     \<lparr>evaluators = Map.empty,
      vehicle_on_lane_evaluator = CRUISE_MLP_EVALUATOR,
      vehicle_in_junction_evaluator = JUNCTION_MLP_EVALUATOR,
      cyclist_on_lane_evaluator = CYCLIST_KEEP_LANE_EVALUATOR,
      pedestrian_evaluator = PEDESTRIAN_INTERACTION_EVALUATOR,
      default_on_lane_evaluator = MLP_EVALUATOR,
      obstacle_id_history_map = []\<rparr>"

definition example_manager :: EvaluatorManager where
  "example_manager = new_EvaluatorManager example_classes example_members"

text \<open>A configuration entry with all three fields set.\<close>

definition conf_entry :: "ObstacleType \<Rightarrow> ObstacleStatus \<Rightarrow> EvaluatorType \<Rightarrow> ObstacleConf" where
  "conf_entry ty st ev =
     \<lparr>conf_obstacle_type = Some ty, conf_evaluator_type = Some ev,
      conf_obstacle_status = Some st\<rparr>"

text \<open>Both containers in place.\<close>

definition both_containers :: "ObstaclesContainer \<Rightarrow> ContainerManager" where
  "both_containers obstacles_container =
     \<lparr>perception_obstacles = Some obstacles_container, localization = Some ()\<rparr>"

definition example_vehicle_param :: VehicleParam where
  "example_vehicle_param = \<lparr>vehicle_length = 5, vehicle_width = 2\<rparr>"

text \<open>The example frame with the ego id among the movable ids.\<close>

definition ego_listed_container :: ObstaclesContainer where
  "ego_listed_container = scenario_container\<lparr>curr_frame_movable_obstacle_ids := [-1, 2]\<rparr>"

text \<open>A frame without the ego vehicle, and with an obstacle (5) that has no stored frame.\<close>

definition no_ego_container :: ObstaclesContainer where
  "no_ego_container =
     \<lparr>obstacles = map_of
        [(1, moving_obstacle 1 VEHICLE CAUTION True False 3),
         (5, moving_obstacle 5 VEHICLE NORMAL True False 0)],
      curr_frame_considered_obstacle_ids = [1, 5],
      curr_frame_movable_obstacle_ids = [1, 5],
      container_timestamp = 0\<rparr>"

section \<open>Partitioning: the bucket of an id\<close>

lemma bucket_push_back_at:
  "bucket (push_back_at m k p) k' = (if k' = k then bucket m k @ [p] else bucket m k')"
  by (induction m) (auto simp: bucket_def)

text \<open>
  Claim C1, at negative ids. The multi-thread path has no test for a negative id, which
  the single-thread loop skips as invalid, and \<^verbatim>\<open>%\<close> keeps the sign of the id. With two
  caution slots out of eight, the cautioned obstacle \<open>-1\<close> enters partitioning and is put
  under key \<open>-1\<close>, outside \<open>[0, 2)\<close> and other than \<open>-1 mod 2 = 1\<close>; the normal obstacle
  \<open>-7\<close> is put under key \<open>-7 % 6 + 2 = 1\<close>, inside the caution range \<open>[0, 2)\<close> and outside
  \<open>[2, 8)\<close>.
\<close>

theorem negative_id_leaves_priority_range:
  "max_caution_thread_num wide_flags = 2 \<and> max_thread_num wide_flags = 8 \<and>
   curr_frame_considered_obstacle_ids negative_id_container = [-1, -7] \<and>
   partition_class negative_id_container (-1) = Some CAUTION \<and>
   partition_class negative_id_container (-7) = Some NORMAL \<and>
   GroupObstacles wide_flags (curr_frame_considered_obstacle_ids negative_id_container)
     negative_id_container [] = Inr [(-1, [-1]), (1, [-7])] \<and>
   (-1::int) < 0 \<and> (-1::int) mod 2 = 1 \<and> (1::int) < max_caution_thread_num wide_flags"
  by (simp add: wide_flags_def scenario_flags_def negative_id_container_def GetObstacle_def
      moving_obstacle_def blank_feature_def GroupObstaclesByObstacleId_def c_rem_def
      partition_class_def)

section \<open>Partitioning: the whole frame\<close>

text \<open>
  With both slot counts different from zero, one call of the grouping function is the
  filter followed by one append under the key computed from the id and the priority.
\<close>

lemma GroupObstaclesByObstacleId_eq:
  assumes "max_caution_thread_num flags \<noteq> 0"
    and "max_thread_num flags \<noteq> max_caution_thread_num flags"
  shows "GroupObstaclesByObstacleId flags i c m =
     Inr (case partition_class c i of None \<Rightarrow> m
          | Some p \<Rightarrow> push_back_at m (assigned_bucket flags i p) i)"
  using assms
  by (auto simp: GroupObstaclesByObstacleId_def partition_class_def assigned_bucket_def Let_def
      split: option.splits)

lemma GroupObstacles_buckets:
  assumes "max_caution_thread_num flags \<noteq> 0"
    and "max_thread_num flags \<noteq> max_caution_thread_num flags"
  shows "\<exists>m'. GroupObstacles flags ids c m = Inr m' \<and>
     (\<forall>k. bucket m' k = bucket m k @
        filter (\<lambda>i. map_option (assigned_bucket flags i) (partition_class c i) = Some k) ids)"
proof (induction ids arbitrary: m)
  case Nil
  then show ?case by simp
next
  case (Cons i ids)
  show ?case
  proof (cases "partition_class c i")
    case None
    with Cons [of m] show ?thesis
      by (simp add: GroupObstaclesByObstacleId_eq [OF assms])
  next
    case (Some p)
    with Cons [of "push_back_at m (assigned_bucket flags i p) i"] show ?thesis
      by (auto simp: GroupObstaclesByObstacleId_eq [OF assms] bucket_push_back_at)
  qed
qed

lemma bucket_Nil: "bucket [] k = []"
  by (simp add: bucket_def)

text \<open>
  Claim C2, amended. With at least one caution slot and at least one other slot, that is
  \<open>0 < Cc < total\<close>, the grouping loop ends with a map in which the list under each key holds exactly the ids of the frame that
  pass the filter and whose key, a function of the flags, the id and the priority alone,
  is that key. Hence no id is under two keys, and an id that enters partitioning is under
  exactly the key \<open>assigned_bucket\<close> gives it. Nothing else of the obstacle or of the
  container enters the result, so a second run on the same frame gives the same map.
\<close>

theorem partition_function_of_id_and_priority:
  assumes "0 < max_caution_thread_num flags"
    and "max_caution_thread_num flags < max_thread_num flags"
  shows "\<exists>m. GroupObstacles flags ids c [] = Inr m \<and>
           (\<forall>k. bucket m k =
              filter (\<lambda>i. map_option (assigned_bucket flags i) (partition_class c i) = Some k) ids) \<and>
           (\<forall>i k k'. i \<in> set (bucket m k) \<and> i \<in> set (bucket m k') \<longrightarrow> k = k') \<and>
           (\<forall>i p. i \<in> set ids \<and> partition_class c i = Some p \<longrightarrow>
              (\<forall>k. i \<in> set (bucket m k) \<longleftrightarrow> k = assigned_bucket flags i p))"
proof -
  from assms have nz: "max_caution_thread_num flags \<noteq> 0"
    "max_thread_num flags \<noteq> max_caution_thread_num flags"
    by simp_all
  from GroupObstacles_buckets [OF nz, of ids c "[]"]
  obtain m where run: "GroupObstacles flags ids c [] = Inr m"
    and b: "\<And>k. bucket m k =
      filter (\<lambda>i. map_option (assigned_bucket flags i) (partition_class c i) = Some k) ids"
    by (auto simp: bucket_Nil)
  have excl: "k = k'" if "i \<in> set (bucket m k)" "i \<in> set (bucket m k')" for i k k'
    using that by (auto simp: b)
  have one: "i \<in> set (bucket m k) \<longleftrightarrow> k = assigned_bucket flags i p"
    if "i \<in> set ids" "partition_class c i = Some p" for i p k
    using that by (auto simp: b)
  from run b excl one show ?thesis
    by blast
qed

text \<open>
  The theorem on the example frame: obstacle 1 (cautioned) under key 0, obstacle 2 under
  key \<open>2 mod 3 + 1 = 3\<close> and under no other, obstacle 3 under key 1, obstacle 4 (ignored)
  nowhere.
\<close>

theorem partition_function_of_id_and_priority_witness:
  "0 < max_caution_thread_num scenario_flags \<and>
   max_caution_thread_num scenario_flags < max_thread_num scenario_flags \<and>
   GroupObstacles scenario_flags [1, 2, 3, 4] scenario_container [] =
     Inr [(0, [1]), (3, [2]), (1, [3])] \<and>
   partition_class scenario_container 2 = Some NORMAL \<and>
   assigned_bucket scenario_flags 2 NORMAL = 3 \<and>
   2 \<in> set (bucket [(0, [1]), (3, [2]), (1, [3])] 3) \<and>
   2 \<notin> set (bucket [(0, [1]), (3, [2]), (1, [3])] 0) \<and>
   partition_class scenario_container 4 = None"
proof -
  have h1: "0 < max_caution_thread_num scenario_flags"
    and h2: "max_caution_thread_num scenario_flags < max_thread_num scenario_flags"
    by (simp_all add: scenario_flags_def)
  have run: "GroupObstacles scenario_flags [1, 2, 3, 4] scenario_container [] =
      Inr [(0, [1]), (3, [2]), (1, [3])]"
    by (simp add: scenario_flags_def scenario_container_def GetObstacle_def moving_obstacle_def
        blank_feature_def GroupObstaclesByObstacleId_def c_rem_def)
  have p2: "partition_class scenario_container 2 = Some NORMAL"
    and p4: "partition_class scenario_container 4 = None"
    by (simp_all add: scenario_container_def GetObstacle_def moving_obstacle_def
        blank_feature_def partition_class_def)
  have a2: "assigned_bucket scenario_flags 2 NORMAL = 3"
    by (simp add: assigned_bucket_def scenario_flags_def c_rem_def)
  note inst = partition_function_of_id_and_priority [OF h1 h2, of "[1, 2, 3, 4]" scenario_container]
  then obtain m where m: "GroupObstacles scenario_flags [1, 2, 3, 4] scenario_container [] = Inr m"
    and only: "\<forall>i p. i \<in> set [1, 2, 3, 4] \<and> partition_class scenario_container i = Some p \<longrightarrow>
       (\<forall>k. i \<in> set (bucket m k) \<longleftrightarrow> k = assigned_bucket scenario_flags i p)"
    by (elim exE conjE)
  from m run have meq: "m = [(0, [1]), (3, [2]), (1, [3])]"
    by simp
  have "(2::int) \<in> set [1, 2, 3, 4] \<and> partition_class scenario_container 2 = Some NORMAL"
    using p2 by simp
  then have k: "2 \<in> set (bucket m k) \<longleftrightarrow> k = assigned_bucket scenario_flags 2 NORMAL" for k
    by (rule only [rule_format])
  have "2 \<in> set (bucket m 3)" and "2 \<notin> set (bucket m 0)"
    unfolding k a2 by simp_all
  with h1 h2 run p2 p4 a2 show ?thesis
    unfolding meq by (intro conjI)
qed

text \<open>
  Claim C2 as stated fails at both ends of \<open>0 \<le> Cc \<le> total\<close>. With every slot a
  caution slot, the remainder for the normal obstacle 2 of the example frame is by
  \<open>total - Cc = 0\<close>; with no caution slot, the remainder for the cautioned obstacle 1 is
  by \<open>Cc = 0\<close>. Either way the process stops in the grouping loop and no id is put
  under any key.
\<close>

theorem no_slot_of_a_kind_counterexample:
  "max_caution_thread_num all_caution_flags = max_thread_num all_caution_flags \<and>
   GroupObstacles all_caution_flags (curr_frame_considered_obstacle_ids scenario_container)
     scenario_container [] = Inl DivisionByZero \<and>
   max_caution_thread_num no_caution_flags = 0 \<and>
   max_caution_thread_num no_caution_flags < max_thread_num no_caution_flags \<and>
   GroupObstacles no_caution_flags (curr_frame_considered_obstacle_ids scenario_container)
     scenario_container [] = Inl DivisionByZero"
  by (simp add: all_caution_flags_def no_caution_flags_def scenario_flags_def
      scenario_container_def GetObstacle_def moving_obstacle_def blank_feature_def
      GroupObstaclesByObstacleId_def c_rem_def)

section \<open>Dispatch of one obstacle: which strategies run\<close>

text \<open>The example manager: every one of the nine types is registered.\<close>

lemma GetEvaluator_example:
  "GetEvaluator example_manager MLP_EVALUATOR = Some (producing ''MLP_EVALUATOR'')"
  "GetEvaluator example_manager JUNCTION_MAP_EVALUATOR = Some (declining ''JUNCTION_MAP_EVALUATOR'')"
  "GetEvaluator example_manager JUNCTION_MLP_EVALUATOR = Some (producing ''JUNCTION_MLP_EVALUATOR'')"
  "GetEvaluator example_manager CRUISE_MLP_EVALUATOR = Some (producing ''CRUISE_MLP_EVALUATOR'')"
  "GetEvaluator example_manager (OTHER_EVALUATOR n) = None"
  by (simp_all add: GetEvaluator_def example_manager_def new_EvaluatorManager_def
      RegisterEvaluators_def RegisterEvaluator_def example_classes_def example_members_def)

lemma routes_example:
  "vehicle_on_lane_evaluator example_manager = CRUISE_MLP_EVALUATOR"
  "vehicle_in_junction_evaluator example_manager = JUNCTION_MLP_EVALUATOR"
  "cyclist_on_lane_evaluator example_manager = CYCLIST_KEEP_LANE_EVALUATOR"
  "default_on_lane_evaluator example_manager = MLP_EVALUATOR"
  by (simp_all add: example_manager_def new_EvaluatorManager_def
      RegisterEvaluators_def RegisterEvaluator_def example_members_def)

lemmas dispatch_congs = option.case_cong prod.case_cong bool.case_cong if_cong

text \<open>
  Claim C3, amended. The pedestrian route is never consulted: the dispatch of any obstacle
  is the same whatever that route is. A \<open>PEDESTRIAN\<close> obstacle takes the \<^verbatim>\<open>default\<close>
  branch of the switch, its own case being commented out: off its lane no strategy is
  called; on a lane the default on-lane strategy is called once, without the dynamic
  environment, and the process stops when that route has no instance.
\<close>

theorem pedestrian_takes_default_branch:
  assumes "obstacle_type obstacle = PEDESTRIAN"
  shows "EvaluateObstacle (mgr\<lparr>pedestrian_evaluator := ty\<rparr>) obstacle env =
           EvaluateObstacle mgr obstacle env \<and>
         EvaluateObstacle mgr obstacle env =
           (if IsOnLane obstacle then
              (case GetEvaluator mgr (default_on_lane_evaluator mgr) of
                 None \<Rightarrow> Inl CheckNotNullFailed
               | Some evaluator \<Rightarrow>
                   Inr ([Invocation (default_on_lane_evaluator mgr) False
                           (fst (Evaluate evaluator obstacle))],
                        snd (Evaluate evaluator obstacle)))
            else Inr ([], obstacle))"
  using assms
  by (simp add: EvaluateObstacle_def GetEvaluator_def case_prod_beta cong: dispatch_congs)

text \<open>
  The theorem at the pedestrian of the example frame, on its lane and off it, with the
  pedestrian route set to a type that has no instance.
\<close>

theorem pedestrian_takes_default_branch_witness:
  "obstacle_type (moving_obstacle 3 PEDESTRIAN NORMAL True False 5) = PEDESTRIAN \<and>
   EvaluateObstacle (example_manager\<lparr>pedestrian_evaluator := OTHER_EVALUATOR 0\<rparr>)
       (moving_obstacle 3 PEDESTRIAN NORMAL True False 5) [] =
     Inr ([Invocation MLP_EVALUATOR False True], moving_obstacle 3 PEDESTRIAN NORMAL True False 5) \<and>
   EvaluateObstacle example_manager (moving_obstacle 3 PEDESTRIAN NORMAL False False 5) [] =
     Inr ([], moving_obstacle 3 PEDESTRIAN NORMAL False False 5)"
proof -
  have t: "obstacle_type (moving_obstacle 3 PEDESTRIAN NORMAL b False 5) = PEDESTRIAN" for b
    by (simp add: moving_obstacle_def)
  have on: "IsOnLane (moving_obstacle 3 PEDESTRIAN NORMAL b False 5) = b" for b
    by (simp add: moving_obstacle_def)
  show ?thesis
    using pedestrian_takes_default_branch
        [where mgr = example_manager and ty = "OTHER_EVALUATOR 0" and env = "[]", OF t [of True]]
      pedestrian_takes_default_branch
        [where mgr = example_manager and ty = "OTHER_EVALUATOR 0" and env = "[]", OF t [of False]]
    by (simp add: t on GetEvaluator_example routes_example producing_def)
qed

text \<open>
  Claim C3 as stated fails: the pedestrian of the example frame is on a lane, and its
  dispatch calls the default on-lane strategy.
\<close>

theorem pedestrian_on_lane_counterexample:
  "obstacle_type (moving_obstacle 3 PEDESTRIAN NORMAL True False 5) = PEDESTRIAN \<and>
   EvaluateObstacle example_manager (moving_obstacle 3 PEDESTRIAN NORMAL True False 5) [] =
     Inr ([Invocation MLP_EVALUATOR False True], moving_obstacle 3 PEDESTRIAN NORMAL True False 5)"
  by (simp add: EvaluateObstacle_def GetEvaluator_example routes_example producing_def
      moving_obstacle_def)

text \<open>
  Claim C5. A \<open>VEHICLE\<close> with a junction ahead and not close to its exit. When the
  priority is \<open>CAUTION\<close> the map-aware strategy is called first, and the strategy of the
  junction route is called after it exactly when the first call returned false; otherwise
  the strategy of the junction route is the only call. At most two calls are made, at
  most one of which returned true. Each strategy is assumed to have an instance where
  the dispatch reaches it; what happens otherwise is the matter of claim C6.
\<close>

theorem junction_vehicle_dispatch:
  assumes "obstacle_type obstacle = VEHICLE"
    and "HasJunctionFeatureWithExits obstacle"
    and "\<not> IsCloseToJunctionExit obstacle"
    and "priority (latest_feature obstacle) = CAUTION \<longrightarrow>
           GetEvaluator mgr JUNCTION_MAP_EVALUATOR = Some map_aware"
    and "priority (latest_feature obstacle) = CAUTION \<and> fst (Evaluate map_aware obstacle) \<or>
           GetEvaluator mgr (vehicle_in_junction_evaluator mgr) = Some junction_route"
  shows "\<exists>calls obstacle'. EvaluateObstacle mgr obstacle env = Inr (calls, obstacle') \<and>
           calls =
             (if priority (latest_feature obstacle) = CAUTION then
                (if fst (Evaluate map_aware obstacle)
                 then [Invocation JUNCTION_MAP_EVALUATOR False True]
                 else [Invocation JUNCTION_MAP_EVALUATOR False False,
                       Invocation (vehicle_in_junction_evaluator mgr) False
                         (fst (Evaluate junction_route (snd (Evaluate map_aware obstacle))))])
              else [Invocation (vehicle_in_junction_evaluator mgr) False
                      (fst (Evaluate junction_route obstacle))]) \<and>
           length calls \<le> 2 \<and> length (filter produced calls) \<le> 1"
proof (cases "priority (latest_feature obstacle) = CAUTION")
  case True
  with assms(4) have m: "GetEvaluator mgr JUNCTION_MAP_EVALUATOR = Some map_aware"
    by simp
  show ?thesis
  proof (cases "fst (Evaluate map_aware obstacle)")
    case True
    with \<open>priority (latest_feature obstacle) = CAUTION\<close> m assms(1-3) show ?thesis
      by (simp add: EvaluateObstacle_def case_prod_beta)
  next
    case False
    with assms(5) have "GetEvaluator mgr (vehicle_in_junction_evaluator mgr) = Some junction_route"
      by simp
    with False \<open>priority (latest_feature obstacle) = CAUTION\<close> m assms(1-3) show ?thesis
      by (simp add: EvaluateObstacle_def case_prod_beta)
  qed
next
  case False
  with assms(5) have "GetEvaluator mgr (vehicle_in_junction_evaluator mgr) = Some junction_route"
    by simp
  with False assms(1-3) show ?thesis
    by (simp add: EvaluateObstacle_def case_prod_beta)
qed

text \<open>
  The theorem at a cautioned vehicle before a junction, with the example manager, whose
  map-aware strategy declines: two calls, the second one on the junction route.
\<close>

theorem junction_vehicle_dispatch_witness:
  "obstacle_type (moving_obstacle 7 VEHICLE CAUTION True True 4) = VEHICLE \<and>
   HasJunctionFeatureWithExits (moving_obstacle 7 VEHICLE CAUTION True True 4) \<and>
   \<not> IsCloseToJunctionExit (moving_obstacle 7 VEHICLE CAUTION True True 4) \<and>
   priority (latest_feature (moving_obstacle 7 VEHICLE CAUTION True True 4)) = CAUTION \<and>
   GetEvaluator example_manager JUNCTION_MAP_EVALUATOR =
     Some (declining ''JUNCTION_MAP_EVALUATOR'') \<and>
   GetEvaluator example_manager (vehicle_in_junction_evaluator example_manager) =
     Some (producing ''JUNCTION_MLP_EVALUATOR'') \<and>
   EvaluateObstacle example_manager (moving_obstacle 7 VEHICLE CAUTION True True 4) [] =
     Inr ([Invocation JUNCTION_MAP_EVALUATOR False False,
           Invocation JUNCTION_MLP_EVALUATOR False True],
          moving_obstacle 7 VEHICLE CAUTION True True 4)"
proof -
  let ?ob = "moving_obstacle 7 VEHICLE CAUTION True True 4"
  have h1: "obstacle_type ?ob = VEHICLE"
    and h2: "HasJunctionFeatureWithExits ?ob"
    and h3: "\<not> IsCloseToJunctionExit ?ob"
    and p: "priority (latest_feature ?ob) = CAUTION"
    by (simp_all add: moving_obstacle_def blank_feature_def)
  have m: "GetEvaluator example_manager JUNCTION_MAP_EVALUATOR =
      Some (declining ''JUNCTION_MAP_EVALUATOR'')"
    and j: "GetEvaluator example_manager (vehicle_in_junction_evaluator example_manager) =
      Some (producing ''JUNCTION_MLP_EVALUATOR'')"
    by (simp_all add: GetEvaluator_example routes_example)
  have h4: "priority (latest_feature ?ob) = CAUTION \<longrightarrow>
      GetEvaluator example_manager JUNCTION_MAP_EVALUATOR =
        Some (declining ''JUNCTION_MAP_EVALUATOR'')"
    using m by simp
  have h5: "priority (latest_feature ?ob) = CAUTION \<and>
        fst (Evaluate (declining ''JUNCTION_MAP_EVALUATOR'') ?ob) \<or>
      GetEvaluator example_manager (vehicle_in_junction_evaluator example_manager) =
        Some (producing ''JUNCTION_MLP_EVALUATOR'')"
    using j by simp
  from junction_vehicle_dispatch [OF h1 h2 h3 h4 h5, of "[]"]
  obtain calls obstacle' where
    run: "EvaluateObstacle example_manager ?ob [] = Inr (calls, obstacle')"
    and calls: "calls =
      (if priority (latest_feature ?ob) = CAUTION then
         (if fst (Evaluate (declining ''JUNCTION_MAP_EVALUATOR'') ?ob)
          then [Invocation JUNCTION_MAP_EVALUATOR False True]
          else [Invocation JUNCTION_MAP_EVALUATOR False False,
                Invocation (vehicle_in_junction_evaluator example_manager) False
                  (fst (Evaluate (producing ''JUNCTION_MLP_EVALUATOR'')
                     (snd (Evaluate (declining ''JUNCTION_MAP_EVALUATOR'') ?ob))))])
       else [Invocation (vehicle_in_junction_evaluator example_manager) False
               (fst (Evaluate (producing ''JUNCTION_MLP_EVALUATOR'') ?ob))])"
    by (elim exE conjE)
  from calls have c: "calls = [Invocation JUNCTION_MAP_EVALUATOR False False,
      Invocation JUNCTION_MLP_EVALUATOR False True]"
    by (simp add: p routes_example declining_def producing_def)
  have "EvaluateObstacle example_manager ?ob [] = Inr (calls, ?ob)"
    unfolding c
    by (simp add: EvaluateObstacle_def h1 h2 h3 p GetEvaluator_example routes_example
        declining_def producing_def)
  with h1 h2 h3 p m j c show ?thesis
    by simp
qed

section \<open>Dispatch of one obstacle: a route without an instance\<close>

lemma Init_entry_evaluators: "evaluators (Init_entry flags obstacle_conf mgr) = evaluators mgr"
  by (simp add: Init_entry_def Let_def split: option.splits ObstacleType.splits)

lemma Init_evaluators: "evaluators (Init flags config mgr) = evaluators mgr"
  unfolding Init_def
  by (induction config arbitrary: mgr) (simp_all add: Init_entry_evaluators)

lemma EvaluateObstacle_calls_present:
  assumes "EvaluateObstacle mgr obstacle env = Inr (calls, obstacle')"
    and "c \<in> set calls"
  shows "GetEvaluator mgr (strategy c) \<noteq> None"
  using assms
  by (auto simp: EvaluateObstacle_def split: if_splits option.splits prod.splits bool.splits)

text \<open>
  Claim C6. On each of the five paths of the dispatch that reach a strategy call, the
  process stops on the failed check when the route has no instance: the dispatch does not
  return. Conversely, when the dispatch returns, every call it made went to an instance.
  \<^verbatim>\<open>Init\<close> has no failing statement (its result is a manager, not an error) and does
  not touch the registry, so a route without an instance shows at dispatch only.
\<close>

theorem absent_strategy_aborts:
  "(obstacle_type obstacle = VEHICLE \<and> HasJunctionFeatureWithExits obstacle \<and>
      \<not> IsCloseToJunctionExit obstacle \<and> priority (latest_feature obstacle) = CAUTION \<and>
      GetEvaluator mgr JUNCTION_MAP_EVALUATOR = None
      \<longrightarrow> EvaluateObstacle mgr obstacle env = Inl CheckNotNullFailed) \<and>
   (obstacle_type obstacle = VEHICLE \<and> HasJunctionFeatureWithExits obstacle \<and>
      \<not> IsCloseToJunctionExit obstacle \<and>
      (priority (latest_feature obstacle) \<noteq> CAUTION \<or>
       (\<exists>map_aware. GetEvaluator mgr JUNCTION_MAP_EVALUATOR = Some map_aware \<and>
          \<not> fst (Evaluate map_aware obstacle))) \<and>
      GetEvaluator mgr (vehicle_in_junction_evaluator mgr) = None
      \<longrightarrow> EvaluateObstacle mgr obstacle env = Inl CheckNotNullFailed) \<and>
   (obstacle_type obstacle = VEHICLE \<and>
      \<not> (HasJunctionFeatureWithExits obstacle \<and> \<not> IsCloseToJunctionExit obstacle) \<and>
      IsOnLane obstacle \<and> GetEvaluator mgr (vehicle_on_lane_evaluator mgr) = None
      \<longrightarrow> EvaluateObstacle mgr obstacle env = Inl CheckNotNullFailed) \<and>
   (obstacle_type obstacle = BICYCLE \<and> IsOnLane obstacle \<and>
      GetEvaluator mgr (cyclist_on_lane_evaluator mgr) = None
      \<longrightarrow> EvaluateObstacle mgr obstacle env = Inl CheckNotNullFailed) \<and>
   (obstacle_type obstacle \<noteq> VEHICLE \<and> obstacle_type obstacle \<noteq> BICYCLE \<and> IsOnLane obstacle \<and>
      GetEvaluator mgr (default_on_lane_evaluator mgr) = None
      \<longrightarrow> EvaluateObstacle mgr obstacle env = Inl CheckNotNullFailed) \<and>
   (\<forall>calls obstacle'. EvaluateObstacle mgr obstacle env = Inr (calls, obstacle') \<longrightarrow>
      (\<forall>c \<in> set calls. GetEvaluator mgr (strategy c) \<noteq> None)) \<and>
   evaluators (Init flags config mgr) = evaluators mgr"
proof (intro conjI impI allI ballI)
  show "evaluators (Init flags config mgr) = evaluators mgr"
    by (rule Init_evaluators)
next
  fix calls obstacle' c
  assume "EvaluateObstacle mgr obstacle env = Inr (calls, obstacle')" "c \<in> set calls"
  then show "GetEvaluator mgr (strategy c) \<noteq> None"
    by (rule EvaluateObstacle_calls_present)
qed (auto simp: EvaluateObstacle_def case_prod_beta)

text \<open>
  The theorem at a configuration that routes on-lane vehicles to a type outside the nine:
  \<^verbatim>\<open>Init\<close> goes through and leaves the registry as it is, and the dispatch of the
  on-lane vehicle of the example frame stops the process.
\<close>

theorem absent_strategy_aborts_witness:
  "evaluators (Init scenario_flags [conf_entry VEHICLE ON_LANE (OTHER_EVALUATOR 0)] example_manager) =
     evaluators example_manager \<and>
   vehicle_on_lane_evaluator
     (Init scenario_flags [conf_entry VEHICLE ON_LANE (OTHER_EVALUATOR 0)] example_manager) =
     OTHER_EVALUATOR 0 \<and>
   GetEvaluator
     (Init scenario_flags [conf_entry VEHICLE ON_LANE (OTHER_EVALUATOR 0)] example_manager)
     (OTHER_EVALUATOR 0) = None \<and>
   EvaluateObstacle
     (Init scenario_flags [conf_entry VEHICLE ON_LANE (OTHER_EVALUATOR 0)] example_manager)
     (moving_obstacle 1 VEHICLE CAUTION True False 3) [] = Inl CheckNotNullFailed"
proof -
  let ?mgr = "Init scenario_flags [conf_entry VEHICLE ON_LANE (OTHER_EVALUATOR 0)] example_manager"
  let ?ob = "moving_obstacle 1 VEHICLE CAUTION True False 3"
  have reg: "evaluators ?mgr = evaluators example_manager"
    by (rule absent_strategy_aborts
      [of ?ob example_manager "[]" scenario_flags
        "[conf_entry VEHICLE ON_LANE (OTHER_EVALUATOR 0)]",
        THEN conjunct2, THEN conjunct2, THEN conjunct2, THEN conjunct2, THEN conjunct2,
        THEN conjunct2])
  have route: "vehicle_on_lane_evaluator ?mgr = OTHER_EVALUATOR 0"
    by (simp add: Init_def Init_entry_def conf_entry_def scenario_flags_def)
  have none: "GetEvaluator ?mgr (OTHER_EVALUATOR 0) = None"
    using GetEvaluator_example(5) [of 0] by (simp add: GetEvaluator_def reg)
  have path: "obstacle_type ?ob = VEHICLE \<and>
      \<not> (HasJunctionFeatureWithExits ?ob \<and> \<not> IsCloseToJunctionExit ?ob) \<and>
      IsOnLane ?ob \<and> GetEvaluator ?mgr (vehicle_on_lane_evaluator ?mgr) = None"
    using none by (simp add: route moving_obstacle_def)
  have "EvaluateObstacle ?mgr ?ob [] = Inl CheckNotNullFailed"
    by (rule absent_strategy_aborts [of ?ob ?mgr "[]" scenario_flags "[]",
        THEN conjunct2, THEN conjunct2, THEN conjunct1, THEN mp, OF path])
  with reg route none show ?thesis
    by (intro conjI)
qed

section \<open>Resolution of the routes: data-collection mode\<close>

lemma Init_entry_vehicle_on_lane:
  assumes "prediction_offline_mode flags = kDumpDataForLearning"
  shows "vehicle_on_lane_evaluator (Init_entry flags obstacle_conf mgr) =
           (if sets_vehicle_on_lane obstacle_conf then LANE_SCANNING_EVALUATOR
            else vehicle_on_lane_evaluator mgr)"
  using assms
  by (auto simp: Init_entry_def sets_vehicle_on_lane_def Let_def
      split: option.splits ObstacleType.splits)

text \<open>
  Claim C9, amended. In data-collection mode, after \<^verbatim>\<open>Init\<close> the vehicle on-lane route
  is \<open>LANE_SCANNING_EVALUATOR\<close> when the configuration has at least one entry with
  obstacle type \<open>VEHICLE\<close>, status \<open>ON_LANE\<close> and an evaluator type, whatever type the
  entries declare; with no such entry the route keeps the value it had before.
\<close>

theorem data_collection_forces_scanning:
  assumes "prediction_offline_mode flags = kDumpDataForLearning"
  shows "vehicle_on_lane_evaluator (Init flags config mgr) =
           (if \<exists>obstacle_conf \<in> set config. sets_vehicle_on_lane obstacle_conf
            then LANE_SCANNING_EVALUATOR
            else vehicle_on_lane_evaluator mgr)"
proof -
  have "vehicle_on_lane_evaluator (fold (Init_entry flags) config mgr) =
      (if \<exists>obstacle_conf \<in> set config. sets_vehicle_on_lane obstacle_conf
       then LANE_SCANNING_EVALUATOR
       else vehicle_on_lane_evaluator mgr)"
  proof (induction config rule: rev_induct)
    case Nil
    then show ?case by simp
  next
    case (snoc obstacle_conf config)
    then show ?case
      by (simp add: Init_entry_vehicle_on_lane [OF assms])
  qed
  then show ?thesis
    by (simp add: Init_def)
qed

text \<open>The theorem at a configuration that declares \<open>COST_EVALUATOR\<close> for on-lane vehicles.\<close>

theorem data_collection_forces_scanning_witness:
  "prediction_offline_mode learning_flags = kDumpDataForLearning \<and>
   sets_vehicle_on_lane (conf_entry VEHICLE ON_LANE COST_EVALUATOR) \<and>
   vehicle_on_lane_evaluator
     (Init learning_flags
        [conf_entry VEHICLE ON_LANE COST_EVALUATOR, conf_entry BICYCLE ON_LANE MLP_EVALUATOR]
        example_manager) = LANE_SCANNING_EVALUATOR"
proof -
  have m: "prediction_offline_mode learning_flags = kDumpDataForLearning"
    by (simp add: learning_flags_def)
  have s: "sets_vehicle_on_lane (conf_entry VEHICLE ON_LANE COST_EVALUATOR)"
    by (simp add: sets_vehicle_on_lane_def conf_entry_def)
  from data_collection_forces_scanning [OF m, of
      "[conf_entry VEHICLE ON_LANE COST_EVALUATOR, conf_entry BICYCLE ON_LANE MLP_EVALUATOR]"
      example_manager] s m
  show ?thesis
    by simp
qed

text \<open>
  Claim C9 as stated fails on a configuration without an entry for on-lane vehicles: the
  override sits inside the handling of such an entry, so the route stays what it was, here
  \<open>CRUISE_MLP_EVALUATOR\<close>.
\<close>

theorem data_collection_without_entry_counterexample:
  "prediction_offline_mode learning_flags = kDumpDataForLearning \<and>
   vehicle_on_lane_evaluator
     (Init learning_flags
        [conf_entry VEHICLE IN_JUNCTION JUNCTION_MLP_EVALUATOR,
         conf_entry BICYCLE ON_LANE CYCLIST_KEEP_LANE_EVALUATOR]
        example_manager) = CRUISE_MLP_EVALUATOR \<and>
   CRUISE_MLP_EVALUATOR \<noteq> LANE_SCANNING_EVALUATOR"
  by (simp add: learning_flags_def Init_def Init_entry_def conf_entry_def routes_example)

section \<open>The history snapshot: the map after the builder\<close>

lemma map_of_update_history:
  "map_of (update_history m k g) k' =
     (if k' = k then Some (g (entry_or_empty m k)) else map_of m k')"
  by (induction m) (auto simp: entry_or_empty_def)

lemma keys_update_history: "fst ` set (update_history m k g) = insert k (fst ` set m)"
proof (induction m)
  case Nil
  then show ?case by simp
next
  case (Cons e m)
  obtain k' h where e: "e = (k', h)"
    by (cases e)
  show ?case
  proof (cases "k' = k")
    case True
    then show ?thesis
      by (simp add: e insert_absorb2)
  next
    case False
    then show ?thesis
      by (simp add: e Cons insert_commute)
  qed
qed

lemma distinct_update_history:
  "distinct (map fst m) \<Longrightarrow> distinct (map fst (update_history m k g))"
proof (induction m)
  case Nil
  then show ?case by simp
next
  case (Cons e m)
  obtain k' h where e: "e = (k', h)"
    by (cases e)
  from Cons show ?case
    by (auto simp: e keys_update_history)
qed

lemma entry_update_history:
  "entry_or_empty (update_history m k g) k' =
     (if k' = k then g (entry_or_empty m k) else entry_or_empty m k')"
  by (simp add: entry_or_empty_def map_of_update_history)

lemma add_frames_entry:
  "entry_or_empty (fold (\<lambda>i m'. update_history m' k (add_feature (F i))) js m) k' =
     (if k' = k
      then (entry_or_empty m k)\<lparr>history_feature := history_feature (entry_or_empty m k) @ map F js\<rparr>
      else entry_or_empty m k')"
  by (induction js arbitrary: m) (simp_all add: entry_update_history add_feature_def)

lemma add_frames_map_of_other:
  "k' \<noteq> k \<Longrightarrow> map_of (fold (\<lambda>i m'. update_history m' k (add_feature (F i))) js m) k' = map_of m k'"
  by (induction js arbitrary: m) (simp_all add: map_of_update_history)

lemma add_frames_distinct:
  "distinct (map fst m) \<Longrightarrow>
   distinct (map fst (fold (\<lambda>i m'. update_history m' k (add_feature (F i))) js m))"
  by (induction js arbitrary: m) (simp_all add: distinct_update_history)

lemma build_history_of_map_of:
  "map_of (build_history_of flags vehicle_param blank c i m) k =
     (case snapshot_obstacle c i of
        None \<Rightarrow> map_of m k
      | Some obstacle \<Rightarrow>
          if k = i then
            Some \<lparr>history_feature = history_feature (entry_or_empty m i)
                     @ history_frames flags vehicle_param blank obstacle,
                  is_trainable = IsTrainable flags (latest_feature obstacle)\<rparr>
          else map_of m k)"
  by (auto simp: build_history_of_def snapshot_obstacle_def history_frames_def Let_def
      map_of_update_history add_frames_entry add_frames_map_of_other set_is_trainable_def
      split: option.splits)

lemma build_history_of_distinct:
  "distinct (map fst m) \<Longrightarrow>
   distinct (map fst (build_history_of flags vehicle_param blank c i m))"
  by (auto simp: build_history_of_def Let_def distinct_update_history add_frames_distinct
      split: option.splits)

lemma build_history_of_entry:
  "entry_or_empty (build_history_of flags vehicle_param blank c i m) k =
     (case snapshot_obstacle c i of
        None \<Rightarrow> entry_or_empty m k
      | Some obstacle \<Rightarrow>
          if k = i then
            \<lparr>history_feature = history_feature (entry_or_empty m i)
                 @ history_frames flags vehicle_param blank obstacle,
             is_trainable = IsTrainable flags (latest_feature obstacle)\<rparr>
          else entry_or_empty m k)"
  by (simp add: entry_or_empty_def [of "build_history_of flags vehicle_param blank c i m"]
      build_history_of_map_of split: option.splits)
    (simp add: entry_or_empty_def)

lemma fold_build_map_of:
  "map_of (fold (build_history_of flags vehicle_param blank c) ids m) k =
     (case snapshot_obstacle c k of
        None \<Rightarrow> map_of m k
      | Some obstacle \<Rightarrow>
          if k \<in> set ids then
            Some \<lparr>history_feature = history_feature (entry_or_empty m k)
                     @ concat (replicate (count_list ids k)
                                (history_frames flags vehicle_param blank obstacle)),
                  is_trainable = IsTrainable flags (latest_feature obstacle)\<rparr>
          else map_of m k)"
proof (induction ids arbitrary: m)
  case Nil
  then show ?case by (simp split: option.splits)
next
  case (Cons i ids)
  show ?case
  proof (cases "snapshot_obstacle c k")
    case None
    then show ?thesis
      by (auto simp: Cons build_history_of_map_of split: option.splits)
  next
    case (Some obstacle)
    let ?m1 = "build_history_of flags vehicle_param blank c i m"
    let ?fr = "history_frames flags vehicle_param blank obstacle"
    from Some have step: "map_of (fold (build_history_of flags vehicle_param blank c) (i # ids) m) k =
        (if k \<in> set ids then
           Some \<lparr>history_feature = history_feature (entry_or_empty ?m1 k)
                    @ concat (replicate (count_list ids k) ?fr),
                 is_trainable = IsTrainable flags (latest_feature obstacle)\<rparr>
         else map_of ?m1 k)"
      by (simp add: Cons)
    from Some have m1: "map_of ?m1 k =
        (if k = i then
           Some \<lparr>history_feature = history_feature (entry_or_empty m k) @ ?fr,
                 is_trainable = IsTrainable flags (latest_feature obstacle)\<rparr>
         else map_of m k)"
      by (auto simp: build_history_of_map_of split: option.splits)
    from Some have e1: "entry_or_empty ?m1 k =
        (if k = i then
           \<lparr>history_feature = history_feature (entry_or_empty m k) @ ?fr,
            is_trainable = IsTrainable flags (latest_feature obstacle)\<rparr>
         else entry_or_empty m k)"
      by (auto simp: build_history_of_entry split: option.splits)
    show ?thesis
      unfolding step m1 e1 using Some by simp
  qed
qed

lemma fold_build_distinct:
  "distinct (map fst m) \<Longrightarrow>
   distinct (map fst (fold (build_history_of flags vehicle_param blank c) ids m))"
  by (induction ids arbitrary: m) (simp_all add: build_history_of_distinct)


lemma length_history_frames:
  "length (history_frames flags vehicle_param blank obstacle) = min 10 (history_size obstacle)"
  by (simp add: history_frames_def)

lemma BuildObstacleIdHistoryMap_present:
  assumes "perception_obstacles containers = Some c"
    and "localization containers = Some pose"
  shows "BuildObstacleIdHistoryMap flags vehicle_param blank containers mgr =
     Inr (mgr\<lparr>obstacle_id_history_map :=
            fold (build_history_of flags vehicle_param blank c) (snapshot_ids flags c) []\<rparr>)"
  using assms
  by (simp add: BuildObstacleIdHistoryMap_def snapshot_ids_def)

lemma snapshot_map_entry:
  assumes "map_of (fold (build_history_of flags vehicle_param blank c) ids []) k = Some h"
  shows "\<exists>obstacle. snapshot_obstacle c k = Some obstacle \<and> k \<in> set ids \<and>
     h = \<lparr>history_feature =
            concat (replicate (count_list ids k)
                      (history_frames flags vehicle_param blank obstacle)),
          is_trainable = IsTrainable flags (latest_feature obstacle)\<rparr>"
  using assms
  by (auto simp: fold_build_map_of entry_or_empty_def empty_history_def
      split: option.splits if_splits)

lemma snapshot_obstacle_Some:
  "snapshot_obstacle c k = Some obstacle \<longleftrightarrow>
     GetObstacle c k = Some obstacle \<and> history_size obstacle \<noteq> 0"
  by (auto simp: snapshot_obstacle_def split: option.splits)

lemma example_containers:
  "perception_obstacles (both_containers c) = Some c"
  "localization (both_containers c) = Some ()"
  by (simp_all add: both_containers_def)

text \<open>
  Claim C7, at a frame whose movable ids hold the ego id. One pass of the inner loop
  appends \<open>min 10 (history_size obstacle)\<close> frames, but the builder appends the ego id to
  the movable ids without looking for it there and goes through the id twice: the ego
  record, with 12 stored frames, ends with 20 frames, more than 10.
\<close>

theorem ego_listed_twice_keeps_twenty_frames:
  "snapshot_ids scenario_flags ego_listed_container = [-1, 2, -1] \<and>
   map_option history_size (GetObstacle ego_listed_container (-1)) = Some 12 \<and>
   frames_kept
     (BuildObstacleIdHistoryMap scenario_flags example_vehicle_param blank_feature
        (both_containers ego_listed_container) example_manager) (-1) = Some 20"
proof -
  let ?ob = "moving_obstacle (-1) VEHICLE CAUTION True False 12"
  have ids: "snapshot_ids scenario_flags ego_listed_container = [-1, 2, -1]"
    by (simp add: snapshot_ids_def scenario_flags_def ego_listed_container_def
        scenario_container_def)
  have get: "GetObstacle ego_listed_container (-1) = Some ?ob"
    by (simp add: GetObstacle_def ego_listed_container_def scenario_container_def)
  have size: "history_size ?ob = 12"
    by (simp add: history_size_def moving_obstacle_def)
  have snap: "snapshot_obstacle ego_listed_container (-1) = Some ?ob"
    by (simp add: snapshot_obstacle_def get size)
  have "map_of (fold (build_history_of scenario_flags example_vehicle_param blank_feature
      ego_listed_container) (snapshot_ids scenario_flags ego_listed_container) []) (-1) =
      Some \<lparr>history_feature =
              history_frames scenario_flags example_vehicle_param blank_feature ?ob
                @ history_frames scenario_flags example_vehicle_param blank_feature ?ob,
            is_trainable = IsTrainable scenario_flags (latest_feature ?ob)\<rparr>"
    unfolding fold_build_map_of snap
    by (simp add: ids entry_or_empty_def empty_history_def)
  then have "frames_kept
     (BuildObstacleIdHistoryMap scenario_flags example_vehicle_param blank_feature
        (both_containers ego_listed_container) example_manager) (-1) = Some 20"
    unfolding BuildObstacleIdHistoryMap_present [OF example_containers]
    by (simp add: frames_kept_def length_history_frames size del: fold_simps)
  with ids get size show ?thesis
    by simp
qed

section \<open>The history snapshot: the frame handed out\<close>

text \<open>
  The records of the frame are the entries of the map: those under another id than the
  ego id, in order, and the entry under the ego id.
\<close>

lemma dump_fold_obstacles:
  "obstacles_history
     (fold (\<lambda>p env. if fst p \<noteq> ego
                     then env\<lparr>obstacles_history := obstacles_history env @ [snd p]\<rparr>
                     else env\<lparr>ego_history := Some (snd p)\<rparr>) m env) =
   obstacles_history env @ map snd (filter (\<lambda>p. fst p \<noteq> ego) m)"
  by (induction m arbitrary: env) auto

lemma dump_fold_ego:
  "distinct (map fst m) \<Longrightarrow>
   ego_history
     (fold (\<lambda>p env. if fst p \<noteq> ego
                     then env\<lparr>obstacles_history := obstacles_history env @ [snd p]\<rparr>
                     else env\<lparr>ego_history := Some (snd p)\<rparr>) m env) =
   (case map_of m ego of None \<Rightarrow> ego_history env | Some h \<Rightarrow> Some h)"
proof (induction m arbitrary: env)
  case Nil
  then show ?case by simp
next
  case (Cons p m)
  obtain k h where p: "p = (k, h)"
    by (cases p)
  show ?case
  proof (cases "k = ego")
    case True
    with Cons.prems p have "map_of m ego = None"
      by (simp add: map_of_eq_None_iff)
    with Cons True p show ?thesis
      by simp
  next
    case False
    with Cons p show ?thesis
      by (simp split: option.splits)
  qed
qed

lemma Dump_obstacles_history:
  "obstacles_history (DumpCurrentFrameEnv flags c mgr) =
     map snd (filter (\<lambda>p. fst p \<noteq> ego_vehicle_id flags) (obstacle_id_history_map mgr))"
  by (simp add: DumpCurrentFrameEnv_def dump_fold_obstacles)

lemma Dump_ego_history:
  "distinct (map fst (obstacle_id_history_map mgr)) \<Longrightarrow>
   ego_history (DumpCurrentFrameEnv flags c mgr) =
     map_of (obstacle_id_history_map mgr) (ego_vehicle_id flags)"
  by (simp add: DumpCurrentFrameEnv_def dump_fold_ego split: option.splits)

lemma IsTrainable_iff:
  "IsTrainable flags f \<longleftrightarrow>
     feature_id f \<noteq> ego_vehicle_id flags \<and> priority f \<noteq> IGNORE \<and> \<not> is_still f \<and>
     feature_type f = VEHICLE"
  by (simp add: IsTrainable_def)

text \<open>
  Claim C8. With both containers in place the builder returns, and for every record of
  its map the trainable flag is true exactly when the latest feature of the obstacle under
  that id has an id other than the ego id, a priority other than \<open>IGNORE\<close>, is not
  still, and has type \<open>VEHICLE\<close>. Every record of the frame handed out is a record of
  that map.
\<close>

theorem trainable_flag_of_latest_feature:
  assumes "perception_obstacles containers = Some c"
    and "localization containers = Some pose"
  shows "\<exists>mgr'. BuildObstacleIdHistoryMap flags vehicle_param blank containers mgr = Inr mgr' \<and>
     (\<forall>k h. map_of (obstacle_id_history_map mgr') k = Some h \<longrightarrow>
        (\<exists>obstacle. GetObstacle c k = Some obstacle \<and>
           (is_trainable h \<longleftrightarrow>
              feature_id (latest_feature obstacle) \<noteq> ego_vehicle_id flags \<and>
              priority (latest_feature obstacle) \<noteq> IGNORE \<and>
              \<not> is_still (latest_feature obstacle) \<and>
              feature_type (latest_feature obstacle) = VEHICLE))) \<and>
     (\<forall>h. h \<in> set (obstacles_history (DumpCurrentFrameEnv flags c mgr')) \<or>
          ego_history (DumpCurrentFrameEnv flags c mgr') = Some h \<longrightarrow>
          (\<exists>k. map_of (obstacle_id_history_map mgr') k = Some h))"
proof -
  let ?m = "fold (build_history_of flags vehicle_param blank c) (snapshot_ids flags c) []"
  let ?mgr = "mgr\<lparr>obstacle_id_history_map := ?m\<rparr>"
  have run: "BuildObstacleIdHistoryMap flags vehicle_param blank containers mgr = Inr ?mgr"
    by (rule BuildObstacleIdHistoryMap_present [OF assms])
  have d: "distinct (map fst ?m)"
    by (rule fold_build_distinct) simp
  have flag: "\<exists>obstacle. GetObstacle c k = Some obstacle \<and>
           (is_trainable h \<longleftrightarrow>
              feature_id (latest_feature obstacle) \<noteq> ego_vehicle_id flags \<and>
              priority (latest_feature obstacle) \<noteq> IGNORE \<and>
              \<not> is_still (latest_feature obstacle) \<and>
              feature_type (latest_feature obstacle) = VEHICLE)"
    if "map_of ?m k = Some h" for k h
  proof -
    from snapshot_map_entry [OF that] obtain obstacle where
      "snapshot_obstacle c k = Some obstacle"
      and "is_trainable h = IsTrainable flags (latest_feature obstacle)"
      by auto
    then show ?thesis
      by (auto simp: snapshot_obstacle_Some IsTrainable_iff)
  qed
  have env: "\<exists>k. map_of ?m k = Some h"
    if "h \<in> set (obstacles_history (DumpCurrentFrameEnv flags c ?mgr)) \<or>
        ego_history (DumpCurrentFrameEnv flags c ?mgr) = Some h" for h
    using that
  proof
    assume "h \<in> set (obstacles_history (DumpCurrentFrameEnv flags c ?mgr))"
    then obtain k where "(k, h) \<in> set ?m"
      by (auto simp: Dump_obstacles_history)
    with d have "map_of ?m k = Some h"
      by simp
    then show ?thesis ..
  next
    assume "ego_history (DumpCurrentFrameEnv flags c ?mgr) = Some h"
    with d have "map_of ?m (ego_vehicle_id flags) = Some h"
      by (simp add: Dump_ego_history)
    then show ?thesis ..
  qed
  from flag env show ?thesis
    unfolding run by simp
qed

text \<open>
  The theorem at the example frame: the record of the cautioned vehicle 1 is trainable,
  the record of the pedestrian 3 is not.
\<close>

theorem trainable_flag_of_latest_feature_witness:
  "perception_obstacles (both_containers scenario_container) = Some scenario_container \<and>
   localization (both_containers scenario_container) = Some () \<and>
   (\<exists>mgr' h1 h3.
      BuildObstacleIdHistoryMap scenario_flags example_vehicle_param blank_feature
        (both_containers scenario_container) example_manager = Inr mgr' \<and>
      map_of (obstacle_id_history_map mgr') 1 = Some h1 \<and> is_trainable h1 \<and>
      map_of (obstacle_id_history_map mgr') 3 = Some h3 \<and> \<not> is_trainable h3)"
proof -
  let ?ids = "snapshot_ids scenario_flags scenario_container"
  let ?m = "fold (build_history_of scenario_flags example_vehicle_param blank_feature
      scenario_container) ?ids []"
  have ids: "?ids = [1, 2, 3, 4, -1]"
    by (simp add: snapshot_ids_def scenario_flags_def scenario_container_def)
  have get1: "GetObstacle scenario_container 1 = Some (moving_obstacle 1 VEHICLE CAUTION True False 3)"
    and get3: "GetObstacle scenario_container 3 = Some (moving_obstacle 3 PEDESTRIAN NORMAL True False 5)"
    by (simp_all add: GetObstacle_def scenario_container_def)
  have snap1: "snapshot_obstacle scenario_container 1 \<noteq> None"
    and snap3: "snapshot_obstacle scenario_container 3 \<noteq> None"
    by (simp_all add: snapshot_obstacle_def get1 get3 history_size_def moving_obstacle_def)
  have "map_of ?m 1 \<noteq> None" and "map_of ?m 3 \<noteq> None"
    unfolding fold_build_map_of using snap1 snap3 by (auto simp: ids)
  then obtain h1 h3 where h1: "map_of ?m 1 = Some h1" and h3: "map_of ?m 3 = Some h3"
    by blast
  from trainable_flag_of_latest_feature [OF example_containers(1) [of scenario_container]
      example_containers(2) [of scenario_container], where flags = scenario_flags
      and vehicle_param = example_vehicle_param
      and blank = blank_feature and mgr = example_manager]
  obtain mgr' where
    run: "BuildObstacleIdHistoryMap scenario_flags example_vehicle_param blank_feature
        (both_containers scenario_container) example_manager = Inr mgr'"
    and all: "\<forall>k h. map_of (obstacle_id_history_map mgr') k = Some h \<longrightarrow>
        (\<exists>obstacle. GetObstacle scenario_container k = Some obstacle \<and>
           (is_trainable h \<longleftrightarrow>
              feature_id (latest_feature obstacle) \<noteq> ego_vehicle_id scenario_flags \<and>
              priority (latest_feature obstacle) \<noteq> IGNORE \<and>
              \<not> is_still (latest_feature obstacle) \<and>
              feature_type (latest_feature obstacle) = VEHICLE))"
    by (elim exE conjE)
  from run have m: "obstacle_id_history_map mgr' = ?m"
    unfolding BuildObstacleIdHistoryMap_present [OF example_containers] by auto
  from h1 h3 have k1: "map_of (obstacle_id_history_map mgr') 1 = Some h1"
    and k3: "map_of (obstacle_id_history_map mgr') 3 = Some h3"
    by (simp_all only: m)
  from all [rule_format, OF k1] have t1: "is_trainable h1"
    by (simp add: get1 moving_obstacle_def blank_feature_def scenario_flags_def)
  from all [rule_format, OF k3] have t3: "\<not> is_trainable h3"
    by (simp add: get3 moving_obstacle_def blank_feature_def scenario_flags_def)
  from run k1 k3 t1 t3 example_containers [of scenario_container] show ?thesis
    by blast
qed

text \<open>
  Claim C10. With both containers in place, an id whose obstacle is missing or has no
  stored frame has no entry in the map the builder returns, whether the id is a movable
  id or the ego id. The frame handed out holds the entries of that map and nothing else,
  so it has no record for the id; when the id is the ego id, the frame has no ego
  history.
\<close>

theorem no_record_without_history:
  assumes "perception_obstacles containers = Some c"
    and "localization containers = Some pose"
    and "GetObstacle c k = None \<or>
         (\<exists>obstacle. GetObstacle c k = Some obstacle \<and> history_size obstacle = 0)"
  shows "\<exists>mgr'. BuildObstacleIdHistoryMap flags vehicle_param blank containers mgr = Inr mgr' \<and>
     map_of (obstacle_id_history_map mgr') k = None \<and>
     obstacles_history (DumpCurrentFrameEnv flags c mgr') =
       map snd (filter (\<lambda>p. fst p \<noteq> ego_vehicle_id flags) (obstacle_id_history_map mgr')) \<and>
     ego_history (DumpCurrentFrameEnv flags c mgr') =
       map_of (obstacle_id_history_map mgr') (ego_vehicle_id flags) \<and>
     (k = ego_vehicle_id flags \<longrightarrow> ego_history (DumpCurrentFrameEnv flags c mgr') = None)"
proof -
  let ?m = "fold (build_history_of flags vehicle_param blank c) (snapshot_ids flags c) []"
  let ?mgr = "mgr\<lparr>obstacle_id_history_map := ?m\<rparr>"
  have run: "BuildObstacleIdHistoryMap flags vehicle_param blank containers mgr = Inr ?mgr"
    by (rule BuildObstacleIdHistoryMap_present [OF assms(1,2)])
  have d: "distinct (map fst (obstacle_id_history_map ?mgr))"
    using fold_build_distinct [of "[]" flags vehicle_param blank c "snapshot_ids flags c"]
    by simp
  from assms(3) have "snapshot_obstacle c k = None"
    by (auto simp: snapshot_obstacle_def)
  then have none: "map_of (obstacle_id_history_map ?mgr) k = None"
    by (simp add: fold_build_map_of)
  note ego = Dump_ego_history [OF d, of flags c]
  from none ego show ?thesis
    unfolding run by (auto simp: Dump_obstacles_history)
qed

text \<open>
  The theorem at a frame without the ego vehicle and with an obstacle without stored
  frames: neither has a record, and the frame handed out has no ego history.
\<close>

theorem no_record_without_history_witness:
  "perception_obstacles (both_containers no_ego_container) = Some no_ego_container \<and>
   localization (both_containers no_ego_container) = Some () \<and>
   GetObstacle no_ego_container (ego_vehicle_id scenario_flags) = None \<and>
   map_option history_size (GetObstacle no_ego_container 5) = Some 0 \<and>
   (\<exists>mgr'.
      BuildObstacleIdHistoryMap scenario_flags example_vehicle_param blank_feature
        (both_containers no_ego_container) example_manager = Inr mgr' \<and>
      map_of (obstacle_id_history_map mgr') (ego_vehicle_id scenario_flags) = None \<and>
      map_of (obstacle_id_history_map mgr') 5 = None \<and>
      ego_history (DumpCurrentFrameEnv scenario_flags no_ego_container mgr') = None)"
proof -
  have ego: "GetObstacle no_ego_container (ego_vehicle_id scenario_flags) = None"
    by (simp add: GetObstacle_def no_ego_container_def scenario_flags_def)
  have get5: "GetObstacle no_ego_container 5 = Some (moving_obstacle 5 VEHICLE NORMAL True False 0)"
    by (simp add: GetObstacle_def no_ego_container_def)
  have size5: "history_size (moving_obstacle 5 VEHICLE NORMAL True False 0) = 0"
    by (simp add: history_size_def moving_obstacle_def)
  have a: "GetObstacle no_ego_container (ego_vehicle_id scenario_flags) = None \<or>
      (\<exists>obstacle. GetObstacle no_ego_container (ego_vehicle_id scenario_flags) = Some obstacle \<and>
         history_size obstacle = 0)"
    using ego by simp
  have b: "GetObstacle no_ego_container 5 = None \<or>
      (\<exists>obstacle. GetObstacle no_ego_container 5 = Some obstacle \<and> history_size obstacle = 0)"
    using get5 size5 by simp
  note inst = no_record_without_history [OF example_containers(1) [of no_ego_container]
      example_containers(2) [of no_ego_container], where flags = scenario_flags
      and vehicle_param = example_vehicle_param
      and blank = blank_feature and mgr = example_manager]
  from inst [OF a] obtain mgr' where
    run: "BuildObstacleIdHistoryMap scenario_flags example_vehicle_param blank_feature
        (both_containers no_ego_container) example_manager = Inr mgr'"
    and none_ego: "map_of (obstacle_id_history_map mgr') (ego_vehicle_id scenario_flags) = None"
    and env: "ego_vehicle_id scenario_flags = ego_vehicle_id scenario_flags \<longrightarrow>
        ego_history (DumpCurrentFrameEnv scenario_flags no_ego_container mgr') = None"
    by (elim exE conjE)
  from inst [OF b] run have none5: "map_of (obstacle_id_history_map mgr') 5 = None"
    by auto
  from env have "ego_history (DumpCurrentFrameEnv scenario_flags no_ego_container mgr') = None"
    by simp
  with run none_ego none5 ego get5 size5 example_containers [of no_ego_container]
  show ?thesis
    by auto
qed

section \<open>One cycle: which obstacles are dispatched\<close>

text \<open>The dispatch of each obstacle of the example frame.\<close>

lemma EvaluateObstacle_examples:
  "EvaluateObstacle example_manager (moving_obstacle 1 VEHICLE CAUTION True False 3) [] =
     Inr ([Invocation CRUISE_MLP_EVALUATOR False True], moving_obstacle 1 VEHICLE CAUTION True False 3)"
  "EvaluateObstacle example_manager (moving_obstacle 2 VEHICLE NORMAL False True 12) [] =
     Inr ([Invocation JUNCTION_MLP_EVALUATOR False True], moving_obstacle 2 VEHICLE NORMAL False True 12)"
  "EvaluateObstacle example_manager (moving_obstacle 3 PEDESTRIAN NORMAL True False 5) [] =
     Inr ([Invocation MLP_EVALUATOR False True], moving_obstacle 3 PEDESTRIAN NORMAL True False 5)"
  "EvaluateObstacle example_manager (moving_obstacle 4 VEHICLE IGNORE True False 2) [] =
     Inr ([Invocation CRUISE_MLP_EVALUATOR False True], moving_obstacle 4 VEHICLE IGNORE True False 2)"
  by (simp_all add: EvaluateObstacle_def GetEvaluator_example routes_example producing_def
      moving_obstacle_def blank_feature_def)

text \<open>
  Claim C4, at the example frame. Candidate 4 is a vehicle of priority \<open>IGNORE\<close> that is
  not still. The single-thread loop has no test of the priority: it dispatches the
  candidate, and the on-lane strategy is called on it. The multi-thread path, which has
  the test, drops it before partitioning and dispatches the other three only.
\<close>

theorem single_thread_dispatches_ignored_obstacle:
  "curr_frame_considered_obstacle_ids scenario_container = [1, 2, 3, 4] \<and>
   map_option (\<lambda>obstacle. (IsStill obstacle, priority (latest_feature obstacle)))
     (GetObstacle scenario_container 4) = Some (False, IGNORE) \<and>
   dispatches (RunDispatch single_thread_flags example_manager scenario_container) =
     Inr [(1, [Invocation CRUISE_MLP_EVALUATOR False True]),
          (2, [Invocation JUNCTION_MLP_EVALUATOR False True]),
          (3, [Invocation MLP_EVALUATOR False True]),
          (4, [Invocation CRUISE_MLP_EVALUATOR False True])] \<and>
   dispatches (RunDispatch scenario_flags example_manager scenario_container) =
     Inr [(1, [Invocation CRUISE_MLP_EVALUATOR False True]),
          (2, [Invocation JUNCTION_MLP_EVALUATOR False True]),
          (3, [Invocation MLP_EVALUATOR False True])]"
proof -
  have ids: "curr_frame_considered_obstacle_ids scenario_container = [1, 2, 3, 4]"
    by (simp add: scenario_container_def)
  have ign: "map_option (\<lambda>obstacle. (IsStill obstacle, priority (latest_feature obstacle)))
      (GetObstacle scenario_container 4) = Some (False, IGNORE)"
    by (simp add: GetObstacle_def scenario_container_def moving_obstacle_def)
  have get: "obstacles scenario_container =
      map_of [(1, moving_obstacle 1 VEHICLE CAUTION True False 3),
         (2, moving_obstacle 2 VEHICLE NORMAL False True 12),
         (3, moving_obstacle 3 PEDESTRIAN NORMAL True False 5),
         (4, moving_obstacle 4 VEHICLE IGNORE True False 2),
         (-1, moving_obstacle (-1) VEHICLE CAUTION True False 12)]"
    by (simp add: scenario_container_def)
  have still: "\<not> IsStill (moving_obstacle i ty p a b n)" for i ty p a b n
    by (simp add: moving_obstacle_def)
  have single: "dispatches (RunDispatch single_thread_flags example_manager scenario_container) =
     Inr [(1, [Invocation CRUISE_MLP_EVALUATOR False True]),
          (2, [Invocation JUNCTION_MLP_EVALUATOR False True]),
          (3, [Invocation MLP_EVALUATOR False True]),
          (4, [Invocation CRUISE_MLP_EVALUATOR False True])]"
    by (simp add: dispatches_def RunDispatch_def single_thread_flags_def scenario_flags_def ids
        GetObstacle_def get still EvaluateObstacle_examples)
  have group: "GroupObstacles scenario_flags [1, 2, 3, 4] scenario_container [] =
      Inr [(0, [1]), (3, [2]), (1, [3])]"
    by (simp add: scenario_flags_def scenario_container_def GetObstacle_def moving_obstacle_def
        blank_feature_def GroupObstaclesByObstacleId_def c_rem_def)
  have multi: "dispatches (RunDispatch scenario_flags example_manager scenario_container) =
     Inr [(1, [Invocation CRUISE_MLP_EVALUATOR False True]),
          (2, [Invocation JUNCTION_MLP_EVALUATOR False True]),
          (3, [Invocation MLP_EVALUATOR False True])]"
    unfolding RunDispatch_def ids group
    by (simp add: dispatches_def scenario_flags_def GetObstacle_def get still
        EvaluateObstacle_examples)
  from ids ign single multi show ?thesis
    by simp
qed

end
